theory Spec2Isabelle
  imports Main
begin

section \<open>Values of the host language\<close>

text \<open>
  A JavaScript string is modelled as a \<^typ>\<open>string\<close>: the list of its code units, for
  strings whose code units are below 256.  The helpers below are the string methods the
  linter calls, with the meaning they have in JavaScript.
\<close>

definition startsWith :: "string \<Rightarrow> string \<Rightarrow> bool" where
  "startsWith s w = (take (length w) s = w)"

definition endsWith :: "string \<Rightarrow> string \<Rightarrow> bool" where
  "endsWith s w = (length w \<le> length s \<and> drop (length s - length w) s = w)"

fun includes_str :: "string \<Rightarrow> string \<Rightarrow> bool" where
  "includes_str [] w = (w = [])"
| "includes_str (c # cs) w = (startsWith (c # cs) w \<or> includes_str cs w)"

text \<open>\<open>s.slice(0, -n)\<close>: the string without its last \<open>n\<close> code units.\<close>

definition slice_end :: "string \<Rightarrow> nat \<Rightarrow> string" where
  "slice_end s n = take (length s - n) s"

text \<open>
  A parsed JSON value.  An object is the list of its own enumerable properties in the
  order in which \<open>Object.keys\<close> and \<open>for ... in\<close> enumerate them; for keys that are
  not array indices this is the order in which the manifest declares them.
\<close>

datatype json =
    JNull
  | JBool bool
  | JNum int
  | JStr string
  | JArr "json list"
  | JObj "(string \<times> json) list"

text \<open>\<open>v[k]\<close> on a parsed value that is an object; \<open>None\<close> is \<open>undefined\<close>.\<close>

fun js_get :: "json \<Rightarrow> string \<Rightarrow> json option" where
  "js_get (JObj kvs) k = map_of kvs k"
| "js_get _ k = None"

section \<open>The file system port\<close>

text \<open>
  The \<open>Vfs\<close> typedef of \<open>core.js\<close>.  \<open>readFile\<close> may reject (the linter catches
  that), which is \<open>None\<close>; the other operations are taken to answer.
\<close>

record Vfs =
  readFile :: "string \<Rightarrow> string option"
  readDir :: "string \<Rightarrow> string list"
  isPathDir :: "string \<Rightarrow> bool"
  isPathExist :: "string \<Rightarrow> bool"
  pathJoin :: "string \<Rightarrow> string \<Rightarrow> string"
  pathRelative :: "string \<Rightarrow> string \<Rightarrow> string"
  getDirName :: "string \<Rightarrow> string"
  getExtName :: "string \<Rightarrow> string"

section \<open>utils.js: the expected format of a file path\<close>

datatype CodeFormat = ESM | CJS | Mixed | Unknown

text \<open>
  One round of the loop of \<open>getNearestPkg\<close>: the manifest of a directory, when the file
  exists, can be read and parses.  \<open>JSON.parse\<close> is a parameter (\<open>None\<close> when it
  throws); a failed read or parse is swallowed by the \<open>catch\<close>.
\<close>

definition tryPkg :: "(string \<Rightarrow> json option) \<Rightarrow> Vfs \<Rightarrow> string \<Rightarrow> json option" where
  "tryPkg JSON_parse v currentDir =
     (if isPathExist v (pathJoin v currentDir ''package.json'')
      then (case readFile v (pathJoin v currentDir ''package.json'') of
              None \<Rightarrow> None
            | Some txt \<Rightarrow> JSON_parse txt)
      else None)"

text \<open>
  The \<open>while (true)\<close> loop of \<open>getNearestPkg\<close>.  The outer \<open>None\<close> is a walk that
  never ends (a \<open>getDirName\<close> that never reaches a fixed point); \<open>Some None\<close> is
  the result \<open>undefined\<close>.
\<close>

partial_function (option) nearestPkgFrom ::
  "(string \<Rightarrow> json option) \<Rightarrow> Vfs \<Rightarrow> string \<Rightarrow> json option option" where
  "nearestPkgFrom JSON_parse v currentDir =
     (case tryPkg JSON_parse v currentDir of
        Some pkg \<Rightarrow> Some (Some pkg)
      | None \<Rightarrow>
          (if getDirName v currentDir = currentDir then Some None
           else nearestPkgFrom JSON_parse v (getDirName v currentDir)))"

definition getNearestPkg ::
  "(string \<Rightarrow> json option) \<Rightarrow> Vfs \<Rightarrow> string \<Rightarrow> json option option" where
  "getNearestPkg JSON_parse v filePath = nearestPkgFrom JSON_parse v (getDirName v filePath)"

text \<open>\<open>nearestPkg?.type === 'module' ? 'ESM' : 'CJS'\<close>\<close>

definition formatOfPkg :: "json option \<Rightarrow> CodeFormat" where
  "formatOfPkg nearestPkg =
     (case nearestPkg of
        None \<Rightarrow> CJS
      | Some pkg \<Rightarrow> (if js_get pkg ''type'' = Some (JStr ''module'') then ESM else CJS))"

definition stripNative :: "string \<Rightarrow> string" where
  "stripNative filePath =
     (if endsWith filePath ''.native.js'' then slice_end filePath 10 else filePath)"

definition getFilePathFormat ::
  "(string \<Rightarrow> json option) \<Rightarrow> Vfs \<Rightarrow> string \<Rightarrow> CodeFormat option" where
  "getFilePathFormat JSON_parse v filePath =
     (if endsWith (stripNative filePath) ''.mjs'' then Some ESM
      else if endsWith (stripNative filePath) ''.cjs'' then Some CJS
      else map_option formatOfPkg (getNearestPkg JSON_parse v (stripNative filePath)))"

definition getDtsFilePathFormat ::
  "(string \<Rightarrow> json option) \<Rightarrow> Vfs \<Rightarrow> string \<Rightarrow> CodeFormat option" where
  "getDtsFilePathFormat JSON_parse v filePath =
     (if endsWith filePath ''.d.mts'' then Some ESM
      else if endsWith filePath ''.d.cts'' then Some CJS
      else map_option formatOfPkg (getNearestPkg JSON_parse v filePath))"

declare nearestPkgFrom.simps [code]

subsection \<open>The walk of \<open>getNearestPkg\<close>, as a list\<close>

text \<open>
  The directories the walk visits when \<open>getDirName\<close> reaches its fixed point after at most
  \<open>n\<close> steps, and the first manifest among them that loads.
\<close>

fun ancestorDirs :: "Vfs \<Rightarrow> nat \<Rightarrow> string \<Rightarrow> string list" where
  "ancestorDirs v 0 d = [d]"
| "ancestorDirs v (Suc n) d = d # ancestorDirs v n (getDirName v d)"

fun firstPkg :: "(string \<Rightarrow> json option) \<Rightarrow> Vfs \<Rightarrow> string list \<Rightarrow> json option" where
  "firstPkg JSON_parse v [] = None"
| "firstPkg JSON_parse v (d # ds) =
     (case tryPkg JSON_parse v d of Some pkg \<Rightarrow> Some pkg | None \<Rightarrow> firstPkg JSON_parse v ds)"

text \<open>
  The rule in the specification's words: the \<open>type\<close> field of the nearest manifest
  that has one.  It is not what \<open>getNearestPkg\<close> computes; it is here to be compared.
\<close>

fun nearestTypeField :: "(string \<Rightarrow> json option) \<Rightarrow> Vfs \<Rightarrow> string list \<Rightarrow> json option" where
  "nearestTypeField JSON_parse v [] = None"
| "nearestTypeField JSON_parse v (d # ds) =
     (case tryPkg JSON_parse v d of
        None \<Rightarrow> nearestTypeField JSON_parse v ds
      | Some pkg \<Rightarrow>
          (case js_get pkg ''type'' of
             None \<Rightarrow> nearestTypeField JSON_parse v ds
           | Some t \<Rightarrow> Some t))"

section \<open>Regular expressions\<close>

text \<open>
  The linter's patterns are JavaScript regular expressions.  They are kept as syntax trees
  and run by a backtracking matcher that tries the alternatives in the order the language
  fixes: the left branch of \<open>|\<close> first, one more round of a greedy \<open>*\<close> before leaving
  it, and the other way round for the lazy \<open>*?\<close>.
\<close>

datatype cls_item =
    Ch char              \<comment> \<open>the character itself\<close>
  | Rng char char        \<comment> \<open>\<open>a-z\<close>\<close>
  | Space                \<comment> \<open>\<open>\s\<close>\<close>
  | Word                 \<comment> \<open>\<open>\w\<close>\<close>
  | Digit                \<comment> \<open>\<open>\d\<close>\<close>

datatype re =
    Eps                  \<comment> \<open>the empty pattern\<close>
  | Lit string           \<comment> \<open>literal text (escaped where the source escapes it)\<close>
  | Cls "cls_item list"  \<comment> \<open>\<open>[...]\<close>, and \<open>\s\<close>, \<open>\w\<close> on their own\<close>
  | NCls "cls_item list" \<comment> \<open>\<open>[^...]\<close>\<close>
  | Dot                  \<comment> \<open>\<open>.\<close>\<close>
  | Bol                  \<comment> \<open>\<open>^\<close>\<close>
  | Eol                  \<comment> \<open>\<open>$\<close>\<close>
  | WordB                \<comment> \<open>\<open>\b\<close>\<close>
  | Seq re re
  | Alt re re            \<comment> \<open>\<open>r|s\<close>\<close>
  | Star re              \<comment> \<open>\<open>r*\<close>\<close>
  | LazyStar re          \<comment> \<open>\<open>r*?\<close>\<close>
  | Grp re               \<comment> \<open>\<open>(r)\<close>, capturing\<close>

definition Plus :: "re \<Rightarrow> re" where
  "Plus r = Seq r (Star r)"

definition Opt :: "re \<Rightarrow> re" where
  "Opt r = Alt r Eps"

fun Seqs :: "re list \<Rightarrow> re" where
  "Seqs [] = Eps"
| "Seqs [r] = r"
| "Seqs (r # rs) = Seq r (Seqs rs)"

fun Alts :: "re list \<Rightarrow> re" where
  "Alts [] = NCls []"
| "Alts [r] = r"
| "Alts (r # rs) = Alt r (Alts rs)"

definition is_word :: "char \<Rightarrow> bool" where
  "is_word c =
     ((48 \<le> (of_char c :: nat) \<and> (of_char c :: nat) \<le> 57) \<or>
      (65 \<le> (of_char c :: nat) \<and> (of_char c :: nat) \<le> 90) \<or>
      (of_char c :: nat) = 95 \<or>
      (97 \<le> (of_char c :: nat) \<and> (of_char c :: nat) \<le> 122))"

text \<open>White space among the code units below 256: tab, LF, VT, FF, CR, space, NBSP.\<close>

definition is_space :: "char \<Rightarrow> bool" where
  "is_space c = ((of_char c :: nat) \<in> {9, 10, 11, 12, 13, 32, 160})"

definition is_digit :: "char \<Rightarrow> bool" where
  "is_digit c = (48 \<le> (of_char c :: nat) \<and> (of_char c :: nat) \<le> 57)"

text \<open>The line terminators among the code units below 256: LF and CR.\<close>

definition is_line_terminator :: "char \<Rightarrow> bool" where
  "is_line_terminator c = ((of_char c :: nat) = 10 \<or> (of_char c :: nat) = 13)"

fun item_match :: "cls_item \<Rightarrow> char \<Rightarrow> bool" where
  "item_match (Ch a) c = (c = a)"
| "item_match (Rng a b) c = ((of_char a :: nat) \<le> of_char c \<and> (of_char c :: nat) \<le> of_char b)"
| "item_match Space c = is_space c"
| "item_match Word c = is_word c"
| "item_match Digit c = is_digit c"

definition cls_match :: "cls_item list \<Rightarrow> char \<Rightarrow> bool" where
  "cls_match items c = list_ex (\<lambda>i. item_match i c) items"

text \<open>
  A matcher state: the code unit before the current position (\<open>None\<close> at the start of the
  input), the input from the current position on, and the texts captured so far, in the
  order in which their groups closed.
\<close>

type_synonym mstate = "char option \<times> string \<times> string list"

definition word_before :: "char option \<Rightarrow> bool" where
  "word_before p = (case p of None \<Rightarrow> False | Some c \<Rightarrow> is_word c)"

definition word_after :: "string \<Rightarrow> bool" where
  "word_after s = (case s of [] \<Rightarrow> False | c # cs \<Rightarrow> is_word c)"

text \<open>
  All the ways in which a pattern matches at a state, as the states after the match, in
  the order in which backtracking finds them.  \<open>ml\<close> is the flag \<open>m\<close>.  A round of a star
  that consumes nothing is not repeated.
\<close>

function rmatch :: "bool \<Rightarrow> re \<Rightarrow> mstate \<Rightarrow> mstate list" where
  "rmatch ml Eps st = [st]"
| "rmatch ml (Lit w) (p, s, caps) =
     (if startsWith s w then [(if w = [] then p else Some (last w), drop (length w) s, caps)]
      else [])"
| "rmatch ml (Cls items) (p, s, caps) =
     (case s of [] \<Rightarrow> []
      | c # cs \<Rightarrow> if cls_match items c then [(Some c, cs, caps)] else [])"
| "rmatch ml (NCls items) (p, s, caps) =
     (case s of [] \<Rightarrow> []
      | c # cs \<Rightarrow> if cls_match items c then [] else [(Some c, cs, caps)])"
| "rmatch ml Dot (p, s, caps) =
     (case s of [] \<Rightarrow> []
      | c # cs \<Rightarrow> if is_line_terminator c then [] else [(Some c, cs, caps)])"
| "rmatch ml Bol (p, s, caps) =
     (case p of None \<Rightarrow> [(p, s, caps)]
      | Some c \<Rightarrow> if ml \<and> is_line_terminator c then [(p, s, caps)] else [])"
| "rmatch ml Eol (p, s, caps) =
     (case s of [] \<Rightarrow> [(p, s, caps)]
      | c # cs \<Rightarrow> if ml \<and> is_line_terminator c then [(p, s, caps)] else [])"
| "rmatch ml WordB (p, s, caps) =
     (if word_before p \<noteq> word_after s then [(p, s, caps)] else [])"
| "rmatch ml (Seq r1 r2) st = concat (map (rmatch ml r2) (rmatch ml r1 st))"
| "rmatch ml (Alt r1 r2) st = rmatch ml r1 st @ rmatch ml r2 st"
| "rmatch ml (Star r) (p, s, caps) =
     concat (map (\<lambda>(p', s', caps').
                    if length s' < length s then rmatch ml (Star r) (p', s', caps') else [])
                 (rmatch ml r (p, s, caps)))
     @ [(p, s, caps)]"
| "rmatch ml (LazyStar r) (p, s, caps) =
     (p, s, caps) #
     concat (map (\<lambda>(p', s', caps').
                    if length s' < length s then rmatch ml (LazyStar r) (p', s', caps') else [])
                 (rmatch ml r (p, s, caps)))"
| "rmatch ml (Grp r) (p, s, caps) =
     map (\<lambda>(p', s', caps'). (p', s', caps' @ [take (length s - length s') s]))
         (rmatch ml r (p, s, caps))"
  by pat_completeness auto
termination
  by (relation "measures [\<lambda>(ml, r, st). size r, \<lambda>(ml, r, p, s, caps). length s]") auto

text \<open>
  \<open>re.exec(s)\<close> without the flag \<open>g\<close>: the leftmost position at which the pattern
  matches, and there the first match that backtracking finds.  The result is the text
  before the match and the state after it; \<open>re.test(s)\<close> asks whether there is one.
\<close>

fun re_search :: "bool \<Rightarrow> re \<Rightarrow> char option \<Rightarrow> string \<Rightarrow> string \<Rightarrow> (string \<times> mstate) option" where
  "re_search ml r p pre [] =
     (case rmatch ml r (p, [], []) of [] \<Rightarrow> None | st # sts \<Rightarrow> Some (pre, st))"
| "re_search ml r p pre (c # cs) =
     (case rmatch ml r (p, c # cs, []) of
        [] \<Rightarrow> re_search ml r (Some c) (pre @ [c]) cs
      | st # sts \<Rightarrow> Some (pre, st))"

definition re_test :: "bool \<Rightarrow> re \<Rightarrow> string \<Rightarrow> bool" where
  "re_test ml r s = (re_search ml r None [] s \<noteq> None)"

text \<open>\<open>s.match(re)\<close> without the flag \<open>g\<close>: the captured groups of the first match.\<close>

definition re_groups :: "bool \<Rightarrow> re \<Rightarrow> string \<Rightarrow> string list option" where
  "re_groups ml r s = map_option (\<lambda>(pre, p, rest, caps). caps) (re_search ml r None [] s)"

text \<open>
  \<open>s.replace(re, '')\<close> with the flag \<open>g\<close>: every match, found from left to right and
  not overlapping, is cut out.  After an empty match the search moves on by one code unit.
\<close>

function re_remove_all :: "bool \<Rightarrow> re \<Rightarrow> char option \<Rightarrow> string \<Rightarrow> string" where
  "re_remove_all ml r p s =
     (case rmatch ml r (p, s, []) of
        (p', s', caps) # sts \<Rightarrow>
          (if length s' < length s then re_remove_all ml r p' s'
           else (case s of [] \<Rightarrow> [] | c # cs \<Rightarrow> c # re_remove_all ml r (Some c) cs))
      | [] \<Rightarrow> (case s of [] \<Rightarrow> [] | c # cs \<Rightarrow> c # re_remove_all ml r (Some c) cs))"
  by pat_completeness auto
termination
  by (relation "measure (\<lambda>(ml, r, p, s). length s)") auto

section \<open>utils.js: the format of a source text\<close>

text \<open>
  \<^verbatim>\<open>/([\s;]|^)(import[\w,{}\s*]*from|import\s*['"*{]|export\b\s*(?:[*{]|default|type|function|const|var|let|async function)|import\.meta\b)/m\<close>
\<close>

definition ESM_CONTENT_RE :: re where
  "ESM_CONTENT_RE =
     Seq (Grp (Alt (Cls [Space, Ch CHR '';'']) Bol))
         (Grp (Alts [
            Seqs [Lit ''import'',
                  Star (Cls [Word, Ch CHR '','', Ch CHR ''{'', Ch CHR ''}'', Space, Ch CHR ''*'']),
                  Lit ''from''],
            Seqs [Lit ''import'', Star (Cls [Space]),
                  Cls [Ch (CHR 0x27), Ch (CHR 0x22), Ch CHR ''*'', Ch CHR ''{'']],
            Seqs [Lit ''export'', WordB, Star (Cls [Space]),
                  Alts [Cls [Ch CHR ''*'', Ch CHR ''{''], Lit ''default'', Lit ''type'',
                        Lit ''function'', Lit ''const'', Lit ''var'', Lit ''let'',
                        Lit ''async function'']],
            Seqs [Lit ''import.meta'', WordB]]))"

definition isCodeEsm :: "string \<Rightarrow> bool" where
  "isCodeEsm code = re_test True ESM_CONTENT_RE code"

text \<open>
  \<^verbatim>\<open>/([\s;]|^)(module.exports\b|exports\.\w|require\s*\(|global\.\w|Object\.(defineProperty|defineProperties|assign)\s*\(\s*exports\b)/m\<close>
  The dot of \<open>module.exports\<close> is not escaped in the source: it stands for any code unit
  that is not a line terminator.
\<close>

definition CJS_CONTENT_RE :: re where
  "CJS_CONTENT_RE =
     Seq (Grp (Alt (Cls [Space, Ch CHR '';'']) Bol))
         (Grp (Alts [
            Seqs [Lit ''module'', Dot, Lit ''exports'', WordB],
            Seqs [Lit ''exports.'', Cls [Word]],
            Seqs [Lit ''require'', Star (Cls [Space]), Lit ''(''],
            Seqs [Lit ''global.'', Cls [Word]],
            Seqs [Lit ''Object.'',
                  Grp (Alts [Lit ''defineProperty'', Lit ''defineProperties'', Lit ''assign'']),
                  Star (Cls [Space]), Lit ''('', Star (Cls [Space]), Lit ''exports'', WordB]]))"

definition isCodeCjs :: "string \<Rightarrow> bool" where
  "isCodeCjs code = re_test True CJS_CONTENT_RE code"

text \<open>\<^verbatim>\<open>/\/\*(.|[\r\n])*?\*\//gm\<close> and \<^verbatim>\<open>/\/\/.*/g\<close>\<close>

definition MULTILINE_COMMENTS_RE :: re where
  "MULTILINE_COMMENTS_RE =
     Seqs [Lit ''/*'', LazyStar (Grp (Alt Dot (Cls [Ch (CHR 0x0D), Ch (CHR 0x0A)]))), Lit ''*/'']"

definition SINGLELINE_COMMENTS_RE :: re where
  "SINGLELINE_COMMENTS_RE = Seq (Lit ''//'') (Star Dot)"

definition stripComments :: "string \<Rightarrow> string" where
  "stripComments code =
     re_remove_all False SINGLELINE_COMMENTS_RE None
       (re_remove_all True MULTILINE_COMMENTS_RE None code)"

definition getCodeFormat :: "string \<Rightarrow> CodeFormat" where
  "getCodeFormat code =
     (if isCodeEsm (stripComments code) \<and> isCodeCjs (stripComments code) then Mixed
      else if isCodeEsm (stripComments code) then ESM
      else if isCodeCjs (stripComments code) then CJS
      else Unknown)"

section \<open>utils.js: paths, extensions and manifest values\<close>

definition getCodeFormatExtension :: "CodeFormat \<Rightarrow> string" where
  "getCodeFormatExtension format =
     (case format of ESM \<Rightarrow> ''.mjs'' | CJS \<Rightarrow> ''.cjs'' | Mixed \<Rightarrow> ''.js'' | Unknown \<Rightarrow> ''.js'')"

definition getDtsCodeFormatExtension :: "CodeFormat \<Rightarrow> string" where
  "getDtsCodeFormatExtension format =
     (case format of ESM \<Rightarrow> ''.mts'' | CJS \<Rightarrow> ''.cts'' | Mixed \<Rightarrow> ''.ts'' | Unknown \<Rightarrow> ''.ts'')"

definition isExplicitExtension :: "string \<Rightarrow> bool" where
  "isExplicitExtension p = (endsWith p ''.mjs'' \<or> endsWith p ''.cjs'')"

text \<open>\<open>lintableFileExtensions\<close> comes from \<open>constants.js\<close>; it is a parameter here.\<close>

definition isFilePathLintable :: "string list \<Rightarrow> string \<Rightarrow> bool" where
  "isFilePathLintable lintableFileExtensions filePath =
     list_ex (\<lambda>ext. endsWith filePath ext) lintableFileExtensions"

definition isFilePathRawTs :: "string \<Rightarrow> bool" where
  "isFilePathRawTs filePath =
     ((endsWith filePath ''.ts'' \<and> \<not> endsWith filePath ''.d.ts'') \<or> endsWith filePath ''.tsx'')"

text \<open>\<^verbatim>\<open>/^\s*(?:\/\/|\/\*\*?|\*)\s*@flow/m\<close>\<close>

definition FLOW_COMMENT_RE :: re where
  "FLOW_COMMENT_RE =
     Seqs [Bol, Star (Cls [Space]),
           Alts [Lit ''//'', Seq (Lit ''/*'') (Opt (Lit ''*'')), Lit ''*''],
           Star (Cls [Space]), Lit ''@flow'']"

definition isFileContentLintable :: "string \<Rightarrow> bool" where
  "isFileContentLintable fileContent = (\<not> re_test True FLOW_COMMENT_RE fileContent)"

definition isRelativePath :: "string \<Rightarrow> bool" where
  "isRelativePath filePath =
     (case filePath of
        [] \<Rightarrow> \<not> includes_str filePath '':''
      | c # cs \<Rightarrow> if c = CHR ''.'' then True else c \<noteq> CHR ''/'' \<and> \<not> includes_str filePath '':'')"

definition is_ascii_letter :: "char \<Rightarrow> bool" where
  "is_ascii_letter c =
     ((65 \<le> (of_char c :: nat) \<and> (of_char c :: nat) \<le> 90) \<or>
      (97 \<le> (of_char c :: nat) \<and> (of_char c :: nat) \<le> 122))"

definition isAbsolutePath :: "string \<Rightarrow> bool" where
  "isAbsolutePath filePath =
     (case filePath of
        [] \<Rightarrow> False
      | c # cs \<Rightarrow> c = CHR ''/'' \<or> (case cs of [] \<Rightarrow> False | d # ds \<Rightarrow> d = CHR '':'' \<and> is_ascii_letter c))"

text \<open>Truthiness of a value; \<open>None\<close> is \<open>undefined\<close>.\<close>

fun truthy :: "json option \<Rightarrow> bool" where
  "truthy None = False"
| "truthy (Some JNull) = False"
| "truthy (Some (JBool b)) = b"
| "truthy (Some (JNum n)) = (n \<noteq> 0)"
| "truthy (Some (JStr s)) = (s \<noteq> [])"
| "truthy (Some (JArr xs)) = True"
| "truthy (Some (JObj kvs)) = True"

text \<open>\<open>typeof\<close>\<close>

fun typeof :: "json option \<Rightarrow> string" where
  "typeof None = ''undefined''"
| "typeof (Some JNull) = ''object''"
| "typeof (Some (JBool b)) = ''boolean''"
| "typeof (Some (JNum n)) = ''number''"
| "typeof (Some (JStr s)) = ''string''"
| "typeof (Some (JArr xs)) = ''object''"
| "typeof (Some (JObj kvs)) = ''object''"

text \<open>The decimal numeral of a number: \<open>'' + key\<close> for an array index.\<close>

fun show_nat :: "nat \<Rightarrow> string" where
  "show_nat n =
     (if n < 10 then [char_of (48 + n)]
      else show_nat (n div 10) @ [char_of (48 + n mod 10)])"

declare show_nat.simps [simp del]

text \<open>
  The properties that \<open>for ... in\<close> enumerates, with their values: the entries of an
  object, the indices of an array, the indices of a string; nothing for the other values.
\<close>

fun js_entries :: "json \<Rightarrow> (string \<times> json) list" where
  "js_entries (JObj kvs) = kvs"
| "js_entries (JArr xs) = zip (map show_nat [0..<length xs]) xs"
| "js_entries (JStr s) = zip (map show_nat [0..<length s]) (map (\<lambda>c. JStr [c]) s)"
| "js_entries _ = []"





text \<open>
  The own properties that a read \<open>v[p]\<close> finds in a value that is neither \<open>undefined\<close>
  nor \<open>null\<close>: an entry, or the \<open>length\<close> of an array or string.
\<close>

definition js_own :: "json \<Rightarrow> string \<Rightarrow> json option" where
  "js_own v p =
     (case map_of (js_entries v) p of
        Some w \<Rightarrow> Some w
      | None \<Rightarrow>
          (case v of
             JArr xs \<Rightarrow> if p = ''length'' then Some (JNum (int (length xs))) else None
           | JStr s \<Rightarrow> if p = ''length'' then Some (JNum (int (length s))) else None
           | _ \<Rightarrow> None))"

text \<open>
  The members that a value inherits from the built-in objects of the language
  (ECMAScript 2023 with its annex B, and \<open>isWellFormed\<close>, \<open>toWellFormed\<close>): those of
  \<open>Object.prototype\<close> for every value, and those of \<open>Array.prototype\<close>,
  \<open>String.prototype\<close> and \<open>Number.prototype\<close> (\<open>Boolean.prototype\<close> has none
  of its own names).  Each of them is a function or an object.
\<close>

definition objectPrototypeMembers :: "string list" where
  "objectPrototypeMembers =
     [''constructor'', ''__defineGetter__'', ''__defineSetter__'', ''hasOwnProperty'',
      ''__lookupGetter__'', ''__lookupSetter__'', ''isPrototypeOf'', ''propertyIsEnumerable'',
      ''toString'', ''valueOf'', ''__proto__'', ''toLocaleString'']"

definition arrayPrototypeMembers :: "string list" where
  "arrayPrototypeMembers =
     [''at'', ''concat'', ''copyWithin'', ''fill'', ''find'', ''findIndex'', ''findLast'',
      ''findLastIndex'', ''lastIndexOf'', ''pop'', ''push'', ''reverse'', ''shift'', ''unshift'',
      ''slice'', ''sort'', ''splice'', ''includes'', ''indexOf'', ''join'', ''keys'', ''entries'',
      ''values'', ''forEach'', ''filter'', ''flat'', ''flatMap'', ''map'', ''every'', ''some'',
      ''reduce'', ''reduceRight'', ''toReversed'', ''toSorted'', ''toSpliced'', ''with'']"

definition stringPrototypeMembers :: "string list" where
  "stringPrototypeMembers =
     [''anchor'', ''at'', ''big'', ''blink'', ''bold'', ''charAt'', ''charCodeAt'', ''codePointAt'',
      ''concat'', ''endsWith'', ''fontcolor'', ''fontsize'', ''fixed'', ''includes'', ''indexOf'',
      ''isWellFormed'', ''italics'', ''lastIndexOf'', ''link'', ''localeCompare'', ''match'',
      ''matchAll'', ''normalize'', ''padEnd'', ''padStart'', ''repeat'', ''replace'', ''replaceAll'',
      ''search'', ''slice'', ''small'', ''split'', ''strike'', ''sub'', ''substr'', ''substring'',
      ''sup'', ''startsWith'', ''toWellFormed'', ''trim'', ''trimStart'', ''trimLeft'', ''trimEnd'',
      ''trimRight'', ''toLocaleLowerCase'', ''toLocaleUpperCase'', ''toLowerCase'', ''toUpperCase'']"

definition numberPrototypeMembers :: "string list" where
  "numberPrototypeMembers = [''toExponential'', ''toFixed'', ''toPrecision'']"

fun inheritedMembers :: "json \<Rightarrow> string list" where
  "inheritedMembers (JObj kvs) = objectPrototypeMembers"
| "inheritedMembers (JArr xs) = arrayPrototypeMembers @ objectPrototypeMembers"
| "inheritedMembers (JStr s) = stringPrototypeMembers @ objectPrototypeMembers"
| "inheritedMembers (JNum n) = numberPrototypeMembers @ objectPrototypeMembers"
| "inheritedMembers (JBool b) = objectPrototypeMembers"
| "inheritedMembers JNull = []"

text \<open>
  \<open>p in v\<close> for an object or array \<open>v\<close>: an own property or an inherited member.
\<close>

definition js_in :: "string \<Rightarrow> json \<Rightarrow> bool" where
  "js_in p v = (js_own v p \<noteq> None \<or> p \<in> set (inheritedMembers v))"

text \<open>
  What a read can give: a value of the manifest, or a function or object of the language,
  of which only that it is truthy is kept.
\<close>

datatype jsval = Json json | Builtin

fun truthy_val :: "jsval option \<Rightarrow> bool" where
  "truthy_val None = False"
| "truthy_val (Some (Json v)) = truthy (Some v)"
| "truthy_val (Some Builtin) = True"

text \<open>
  What a piece of the linter comes to: it returns a value, it throws (and the whole pass
  is rejected), or it never settles.
\<close>

datatype 'a outcome = Done 'a | Thrown | Pending

text \<open>
  \<open>v[p]\<close> for a value that is neither \<open>undefined\<close> nor \<open>null\<close>: an own property, else
  an inherited member, else \<open>undefined\<close>.
\<close>

definition js_index :: "json \<Rightarrow> string \<Rightarrow> jsval option" where
  "js_index v p =
     (case js_own v p of
        Some w \<Rightarrow> Some (Json w)
      | None \<Rightarrow> if p \<in> set (inheritedMembers v) then Some Builtin else None)"

text \<open>
  \<open>getPkgPathValue\<close>: \<open>v = v[p]\<close> along the path.  Reading a property of \<open>undefined\<close>
  or \<open>null\<close> throws a \<open>TypeError\<close>.  Once the walk has left the manifest for a
  function or object of the language, the members of that one decide; they are not part of
  this development, and \<open>builtinWalk v p ps\<close> stands for what the walk from the inherited
  member \<open>p\<close> of \<open>v\<close> along the parts \<open>ps\<close> that are left comes to.
\<close>

fun getPkgPathValue :: "(json \<Rightarrow> string \<Rightarrow> string list \<Rightarrow> jsval option outcome)
    \<Rightarrow> json option \<Rightarrow> string list \<Rightarrow> jsval option outcome" where
  "getPkgPathValue builtinWalk v [] = Done (map_option Json v)"
| "getPkgPathValue builtinWalk v (p # ps) =
     (case v of
        None \<Rightarrow> Thrown
      | Some JNull \<Rightarrow> Thrown
      | Some w \<Rightarrow>
          (case js_index w p of
             None \<Rightarrow> getPkgPathValue builtinWalk None ps
           | Some (Json x) \<Rightarrow> getPkgPathValue builtinWalk (Some x) ps
           | Some Builtin \<Rightarrow> if ps = [] then Done (Some Builtin) else builtinWalk w p ps))"

text \<open>\<open>pkgJson.publishConfig?.[field]\<close>\<close>

definition publishConfigField :: "json \<Rightarrow> string \<Rightarrow> json option" where
  "publishConfigField pkgJson field =
     (case js_get pkgJson ''publishConfig'' of
        None \<Rightarrow> None
      | Some JNull \<Rightarrow> None
      | Some pc \<Rightarrow> js_get pc field)"

definition getPublishedField :: "json \<Rightarrow> string \<Rightarrow> json option \<times> string list" where
  "getPublishedField pkgJson field =
     (if truthy (publishConfigField pkgJson field)
      then (publishConfigField pkgJson field, [''publishConfig'', field])
      else (js_get pkgJson field, [field]))"

text \<open>\<open>typeof v === 'object'\<close>, for a value that is not \<open>undefined\<close>.\<close>

fun is_object :: "json \<Rightarrow> bool" where
  "is_object JNull = True"
| "is_object (JArr xs) = True"
| "is_object (JObj kvs) = True"
| "is_object _ = False"

fun objectHasKeyNested :: "json \<Rightarrow> string \<Rightarrow> bool"
  and entriesHaveKeyNested :: "(string \<times> json) list \<Rightarrow> string \<Rightarrow> bool"
  and elemsHaveKeyNested :: "json list \<Rightarrow> nat \<Rightarrow> string \<Rightarrow> bool" where
  "objectHasKeyNested (JObj kvs) k = entriesHaveKeyNested kvs k"
| "objectHasKeyNested (JArr xs) k = elemsHaveKeyNested xs 0 k"
| "objectHasKeyNested (JStr s) k = (k \<in> set (map show_nat [0..<length s]))"
| "objectHasKeyNested JNull k = False"
| "objectHasKeyNested (JBool b) k = False"
| "objectHasKeyNested (JNum n) k = False"
| "entriesHaveKeyNested [] k = False"
| "entriesHaveKeyNested ((k', v) # kvs) k =
     (if k' = k then True
      else if is_object v \<and> objectHasKeyNested v k then True
      else entriesHaveKeyNested kvs k)"
| "elemsHaveKeyNested [] i k = False"
| "elemsHaveKeyNested (x # xs) i k =
     (if show_nat i = k then True
      else if is_object x \<and> objectHasKeyNested x k then True
      else elemsHaveKeyNested xs (Suc i) k)"

fun objectHasValueNested :: "json \<Rightarrow> (string \<Rightarrow> bool) \<Rightarrow> bool"
  and entriesHaveValueNested :: "(string \<times> json) list \<Rightarrow> (string \<Rightarrow> bool) \<Rightarrow> bool"
  and elemsHaveValueNested :: "json list \<Rightarrow> (string \<Rightarrow> bool) \<Rightarrow> bool" where
  "objectHasValueNested (JObj kvs) predicate = entriesHaveValueNested kvs predicate"
| "objectHasValueNested (JArr xs) predicate = elemsHaveValueNested xs predicate"
| "objectHasValueNested (JStr s) predicate = list_ex (\<lambda>c. predicate [c]) s"
| "objectHasValueNested JNull predicate = False"
| "objectHasValueNested (JBool b) predicate = False"
| "objectHasValueNested (JNum n) predicate = False"
| "entriesHaveValueNested [] predicate = False"
| "entriesHaveValueNested ((k, v) # kvs) predicate =
     (if (case v of JStr s \<Rightarrow> predicate s | _ \<Rightarrow> False) then True
      else if is_object v \<and> objectHasValueNested v predicate then True
      else entriesHaveValueNested kvs predicate)"
| "elemsHaveValueNested [] predicate = False"
| "elemsHaveValueNested (x # xs) predicate =
     (if (case x of JStr s \<Rightarrow> predicate s | _ \<Rightarrow> False) then True
      else if is_object x \<and> objectHasValueNested x predicate then True
      else elemsHaveValueNested xs predicate)"

text \<open>\<^verbatim>\<open>filePath.replace(/\.([mc]?)jsx?$/, '.d.$1ts')\<close>\<close>

definition JS_EXT_RE :: re where
  "JS_EXT_RE =
     Seqs [Lit ''.'', Grp (Opt (Cls [Ch CHR ''m'', Ch CHR ''c''])), Lit ''js'', Opt (Lit ''x''), Eol]"

definition getAdjacentDtsPath :: "string \<Rightarrow> string" where
  "getAdjacentDtsPath filePath =
     (case re_search False JS_EXT_RE None [] filePath of
        None \<Rightarrow> filePath
      | Some (pre, p, rest, caps) \<Rightarrow> pre @ ''.d.'' @ concat (take 1 caps) @ ''ts'' @ rest)"

text \<open>\<^verbatim>\<open>/\.d\.[mc]?ts$/\<close>\<close>

definition DTS_RE :: re where
  "DTS_RE = Seqs [Lit ''.d.'', Opt (Cls [Ch CHR ''m'', Ch CHR ''c'']), Lit ''ts'', Eol]"

definition isDtsFile :: "string \<Rightarrow> bool" where
  "isDtsFile filePath = re_test False DTS_RE filePath"

text \<open>A resolved entry: \<open>{ value, path }\<close>.\<close>

record resolved =
  r_value :: string
  r_path :: "string list"

text \<open>
  \<open>resolveExports\<close>.  Of an array only the first element counts; an empty array, like
  any other value without enumerable properties, resolves to \<open>undefined\<close>.  The entries of
  an object are tried in their order; \<open>default\<close> ends the search whatever it gives.
\<close>

fun resolveExports :: "json \<Rightarrow> string list \<Rightarrow> string list \<Rightarrow> resolved option"
  and resolveEntries :: "(string \<times> json) list \<Rightarrow> string list \<Rightarrow> string list \<Rightarrow> resolved option" where
  "resolveExports (JStr s) conditions currentPath = Some \<lparr>r_value = s, r_path = currentPath\<rparr>"
| "resolveExports (JArr []) conditions currentPath = None"
| "resolveExports (JArr (x # xs)) conditions currentPath =
     resolveExports x conditions (currentPath @ [''0''])"
| "resolveExports (JObj kvs) conditions currentPath = resolveEntries kvs conditions currentPath"
| "resolveExports JNull conditions currentPath = None"
| "resolveExports (JBool b) conditions currentPath = None"
| "resolveExports (JNum n) conditions currentPath = None"
| "resolveEntries [] conditions currentPath = None"
| "resolveEntries ((k, v) # kvs) conditions currentPath =
     (if k \<in> set conditions \<or> k = ''default''
      then (case resolveExports v conditions (currentPath @ [k]) of
              Some r \<Rightarrow> Some r
            | None \<Rightarrow> if k = ''default'' then None else resolveEntries kvs conditions currentPath)
      else resolveEntries kvs conditions currentPath)"

text \<open>\<open>str.lastIndexOf(search)\<close>, \<open>None\<close> for \<open>-1\<close>.\<close>

definition lastIndexOf :: "string \<Rightarrow> string \<Rightarrow> nat option" where
  "lastIndexOf str search =
     (case filter (\<lambda>i. startsWith (drop i str) search) (rev [0..<Suc (length str)]) of
        [] \<Rightarrow> None
      | i # is \<Rightarrow> Some i)"

definition replaceLast :: "string \<Rightarrow> string \<Rightarrow> string \<Rightarrow> string" where
  "replaceLast str search replace =
     (case lastIndexOf str search of
        None \<Rightarrow> str
      | Some i \<Rightarrow> take i str @ replace @ drop (i + length search) str)"

text \<open>\<^verbatim>\<open>/#!\s*\/usr\/bin\/env/\<close>\<close>

definition SHEBANG_RE :: re where
  "SHEBANG_RE = Seqs [Lit ''#!'', Star (Cls [Space]), Lit ''/usr/bin/env'']"

definition startsWithShebang :: "string \<Rightarrow> bool" where
  "startsWithShebang code = re_test False SHEBANG_RE code"

section \<open>utils.js: expanding a glob over the file tree\<close>

definition slash :: "string \<Rightarrow> string" where
  "slash str = map (\<lambda>c. if c = CHR 0x5C then CHR ''/'' else c) str"

text \<open>\<open>str.split(sep)\<close> for a separator of one code unit.\<close>

fun split_on :: "char \<Rightarrow> string \<Rightarrow> string list" where
  "split_on sep [] = [[]]"
| "split_on sep (c # cs) =
     (if c = sep then [] # split_on sep cs
      else (case split_on sep cs of [] \<Rightarrow> [[c]] | p # ps \<Rightarrow> (c # p) # ps))"

text \<open>
  \<^verbatim>\<open>new RegExp(`^${str.split('*').map(escapeRegExp).join('(.+)')}$`)\<close>:
  \<open>escapeRegExp\<close> makes every piece between the stars match itself, and every star
  becomes the group \<open>(.+)\<close>.
\<close>

fun joinGroups :: "string list \<Rightarrow> re list" where
  "joinGroups [] = []"
| "joinGroups [p] = [Lit p]"
| "joinGroups (p # ps) = Lit p # Grp (Plus Dot) # joinGroups ps"

definition globRegExp :: "string \<Rightarrow> re" where
  "globRegExp str = Seqs ([Bol] @ joinGroups (split_on CHR ''*'' str) @ [Eol])"

text \<open>
  \<^verbatim>\<open>globStr.split('*')[0].match(/(.+)[/\\]/)?.[1]\<close>: the longest directory that does
  not contain a star.
\<close>

definition TOP_DIR_RE :: re where
  "TOP_DIR_RE = Seq (Grp (Plus Dot)) (Cls [Ch CHR ''/'', Ch (CHR 0x5C)])"

definition topDirOf :: "string \<Rightarrow> string option" where
  "topDirOf globStr =
     (case split_on CHR ''*'' globStr of
        [] \<Rightarrow> None
      | first # rest \<Rightarrow>
          (case re_groups False TOP_DIR_RE first of
             None \<Rightarrow> None
           | Some caps \<Rightarrow> (case caps of [] \<Rightarrow> None | g # gs \<Rightarrow> Some g)))"

text \<open>
  The keys of \<open>exports\<close> that are mapped to \<open>null\<close>, as patterns; none unless both a
  key and an \<open>exports\<close> value are given.
\<close>

definition excludedExportKeys :: "string option \<Rightarrow> json option \<Rightarrow> re list" where
  "excludedExportKeys exportsKey exports =
     (case exports of
        None \<Rightarrow> []
      | Some e \<Rightarrow>
          if truthy (map_option JStr exportsKey) \<and> truthy exports
          then map (\<lambda>(key, val). globRegExp key) (filter (\<lambda>(key, val). val = JNull) (js_entries e))
          else [])"

text \<open>
  \<open>str.replace(pattern, replacement)\<close> for a pattern that is a string: the first occurrence
  is replaced, and in the replacement \<open>$$\<close>, \<open>$&\<close>, \<open>$`\<close> and \<open>$'\<close> stand for a dollar
  sign, the occurrence, the text before it and the text after it.
\<close>

fun expand_replacement :: "string \<Rightarrow> string \<Rightarrow> string \<Rightarrow> string \<Rightarrow> string" where
  "expand_replacement pre matched post (c # d # rest) =
     (if c = CHR ''$'' \<and> d = CHR ''$'' then CHR ''$'' # expand_replacement pre matched post rest
      else if c = CHR ''$'' \<and> d = CHR ''&'' then matched @ expand_replacement pre matched post rest
      else if c = CHR ''$'' \<and> d = CHR 0x60 then pre @ expand_replacement pre matched post rest
      else if c = CHR ''$'' \<and> d = CHR 0x27 then post @ expand_replacement pre matched post rest
      else c # expand_replacement pre matched post (d # rest))"
| "expand_replacement pre matched post cs = cs"

fun replace_from :: "string \<Rightarrow> string \<Rightarrow> string \<Rightarrow> string \<Rightarrow> string" where
  "replace_from pre [] pat replacement =
     (if pat = [] then pre @ expand_replacement pre pat [] replacement else pre)"
| "replace_from pre (c # cs) pat replacement =
     (if startsWith (c # cs) pat
      then pre @ expand_replacement pre pat (drop (length pat) (c # cs)) replacement
             @ drop (length pat) (c # cs)
      else replace_from (pre @ [c]) cs pat replacement)"

definition replace_str :: "string \<Rightarrow> string \<Rightarrow> string \<Rightarrow> string" where
  "replace_str str pat replacement = replace_from [] str pat replacement"

text \<open>\<open>!packedFiles || packedFiles.some((file) => file.startsWith(itemPath))\<close>\<close>

definition isPacked :: "string list option \<Rightarrow> string \<Rightarrow> bool" where
  "isPacked packedFiles itemPath =
     (case packedFiles of
        None \<Rightarrow> True
      | Some files \<Rightarrow> list_ex (\<lambda>file. startsWith file itemPath) files)"

text \<open>\<open>allGlobSame\<close>: the groups from the second on all equal the first.\<close>

definition allGlobSame :: "string list \<Rightarrow> bool" where
  "allGlobSame matched =
     (case matched of [] \<Rightarrow> True | first # others \<Rightarrow> list_all (\<lambda>g. g = first) others)"

text \<open>
  What the body of the loop of \<open>scanDir\<close> does with an item that is a file: the paths it
  pushes, none or the item.  \<open>matched\<close> holds the groups \<open>matched[1]\<close>, \<open>matched[2]\<close>,
  ...; a missing \<open>matched[1]\<close> reads as \<open>undefined\<close>, which \<open>replace\<close> writes out.
\<close>

definition scanFile :: "re \<Rightarrow> string option \<Rightarrow> json option \<Rightarrow> string \<Rightarrow> string list" where
  "scanFile globStrRe exportsKey exports itemPath =
     (case re_groups False globStrRe (slash itemPath) of
        None \<Rightarrow> []
      | Some matched \<Rightarrow>
          if length matched > 1 \<and> \<not> allGlobSame matched then []
          else if truthy (map_option JStr exportsKey) \<and> truthy exports \<and>
                  excludedExportKeys exportsKey exports \<noteq> [] \<and>
                  list_ex (\<lambda>re. re_test False re
                             (replace_str (case exportsKey of None \<Rightarrow> [] | Some k \<Rightarrow> k) ''*''
                                (case matched of [] \<Rightarrow> ''undefined'' | g # gs \<Rightarrow> g)))
                          (excludedExportKeys exportsKey exports)
          then []
          else [itemPath])"

text \<open>
  \<open>scanDir\<close>, with the depth of the recursion bounded by the first argument: \<open>None\<close> when
  the directories nest deeper than that.  The result is what the call adds to
  \<open>filePaths\<close>.
\<close>

fun scanDir :: "nat \<Rightarrow> Vfs \<Rightarrow> string list option \<Rightarrow> re \<Rightarrow> string option \<Rightarrow> json option
    \<Rightarrow> string \<Rightarrow> string list option"
  and scanItems :: "nat \<Rightarrow> Vfs \<Rightarrow> string list option \<Rightarrow> re \<Rightarrow> string option \<Rightarrow> json option
    \<Rightarrow> string \<Rightarrow> string list \<Rightarrow> string list option" where
  "scanDir 0 v packedFiles globStrRe exportsKey exports dirPath = None"
| "scanDir (Suc n) v packedFiles globStrRe exportsKey exports dirPath =
     scanItems n v packedFiles globStrRe exportsKey exports dirPath (readDir v dirPath)"
| "scanItems n v packedFiles globStrRe exportsKey exports dirPath [] = Some []"
| "scanItems n v packedFiles globStrRe exportsKey exports dirPath (item # items) =
     (if isPacked packedFiles (pathJoin v dirPath item)
      then (if isPathDir v (pathJoin v dirPath item)
            then (case scanDir n v packedFiles globStrRe exportsKey exports (pathJoin v dirPath item) of
                    None \<Rightarrow> None
                  | Some found \<Rightarrow>
                      map_option (\<lambda>more. found @ more)
                        (scanItems n v packedFiles globStrRe exportsKey exports dirPath items))
            else map_option (\<lambda>more. scanFile globStrRe exportsKey exports (pathJoin v dirPath item) @ more)
                   (scanItems n v packedFiles globStrRe exportsKey exports dirPath items))
      else scanItems n v packedFiles globStrRe exportsKey exports dirPath items)"

definition exportsGlob :: "nat \<Rightarrow> string \<Rightarrow> Vfs \<Rightarrow> string list option \<Rightarrow> string option \<Rightarrow> json option
    \<Rightarrow> string list option" where
  "exportsGlob n globStr v packedFiles exportsKey exports =
     (case topDirOf globStr of
        None \<Rightarrow> Some []
      | Some topDir \<Rightarrow>
          if isPathDir v topDir
          then scanDir n v packedFiles (globRegExp (slash globStr)) exportsKey exports topDir
          else Some [])"

text \<open>
  What is asked of a path in the result: the pattern matches it, and the texts its groups
  captured are all the same.
\<close>

definition sameCaptures :: "re \<Rightarrow> string \<Rightarrow> bool" where
  "sameCaptures globStrRe f =
     (\<exists>matched. re_groups False globStrRe (slash f) = Some matched \<and>
                list_all (\<lambda>g. g = hd matched) matched)"

section \<open>core.js: diagnostics and the helpers of a pass\<close>

datatype msg_code =
    FILE_DOES_NOT_EXIST
  | FILE_NOT_PUBLISHED
  | FILE_INVALID_FORMAT
  | FILE_INVALID_EXPLICIT_FORMAT
  | FILE_INVALID_JSX_EXTENSION
  | FIELD_INVALID_VALUE_TYPE
  | HAS_ESM_MAIN_BUT_NO_EXPORTS
  | BIN_FILE_NOT_EXECUTABLE
  | EXPORTS_GLOB_NO_DEPRECATED_SUBPATH_MAPPING
  | IMPORTS_GLOB_NO_DEPRECATED_SUBPATH_MAPPING
  | EXPORTS_VALUE_INVALID
  | IMPORTS_VALUE_INVALID
  | EXPORTS_GLOB_NO_MATCHED_FILES
  | IMPORTS_GLOB_NO_MATCHED_FILES
  | EXPORTS_VALUE_CONFLICTS_WITH_BROWSER
  | EXPORTS_MODULE_SHOULD_BE_ESM
  | IMPORTS_MODULE_SHOULD_BE_ESM
  | EXPORTS_FALLBACK_ARRAY_USE
  | IMPORTS_FALLBACK_ARRAY_USE
  | EXPORTS_TYPES_SHOULD_BE_FIRST
  | EXPORTS_MODULE_SHOULD_PRECEDE_REQUIRE
  | IMPORTS_MODULE_SHOULD_PRECEDE_REQUIRE
  | EXPORTS_DEFAULT_SHOULD_BE_LAST
  | IMPORTS_DEFAULT_SHOULD_BE_LAST
  | IMPORTS_KEY_INVALID
  | EXPORTS_TYPES_INVALID_FORMAT
  | TYPES_NOT_EXPORTED

datatype msg_type = Error | Warning | Suggestion

datatype arg = AStr string | AStrs "string list" | AFormat CodeFormat | AUndefined

text \<open>A diagnostic, as it is pushed to \<open>messages\<close>.\<close>

record message =
  m_code :: msg_code
  m_args :: "(string \<times> arg) list"
  m_path :: "string list"
  m_type :: msg_type

text \<open>
  What the functions inside \<open>core\<close> close over: the options of the pass, the parsed root
  manifest, \<open>JSON.parse\<close>, the tables of \<open>constants.js\<close>, and the members of the
  functions and objects of the language (see \<open>getPkgPathValue\<close>).  Of \<open>core\<close> the blocks
  for \<open>main\<close>, \<open>exports\<close>, \<open>bin\<close> and \<open>imports\<close> are embedded, with the functions
  they call.  The diagnostics are those pushed to \<open>messages\<close>, before \<open>strict\<close> and
  \<open>level\<close> are applied at the end of \<open>core\<close>; their order across tasks is not part of
  the model.
\<close>

record ctx =
  pkgDir :: string
  vfs :: Vfs
  packedFiles :: "string list option"
  rootPkg :: json
  parseJSON :: "string \<Rightarrow> json option"
  lintableExts :: "string list"
  invalidJsxExts :: "string list"
  browserishConditions :: "string list"
  builtinWalk :: "json \<Rightarrow> string \<Rightarrow> string list \<Rightarrow> jsval option outcome"

text \<open>
  Two pieces that run side by side and push to the same \<open>messages\<close>: the pass is rejected
  when one of them throws, and does not settle when one of them does not.
\<close>

fun both :: "message list outcome \<Rightarrow> message list outcome \<Rightarrow> message list outcome" where
  "both (Done a) (Done b) = Done (a @ b)"
| "both Thrown r = Thrown"
| "both l Thrown = Thrown"
| "both Pending r = Pending"
| "both l Pending = Pending"

text \<open>The diagnostics of a piece that returned; there are none to see otherwise.\<close>

fun emitted :: "message list outcome \<Rightarrow> message list" where
  "emitted (Done ms) = ms"
| "emitted Thrown = []"
| "emitted Pending = []"

definition fileNotPublished :: "string list \<Rightarrow> message" where
  "fileNotPublished pkgPath =
     \<lparr>m_code = FILE_NOT_PUBLISHED, m_args = [], m_path = pkgPath, m_type = Error\<rparr>"

text \<open>\<open>if (pkgPath && _packedFiles && !_packedFiles.includes(path)) fileNotPublished(pkgPath)\<close>\<close>

definition notPublished :: "ctx \<Rightarrow> string list option \<Rightarrow> string \<Rightarrow> message list" where
  "notPublished c pkgPath p =
     (case pkgPath of
        None \<Rightarrow> []
      | Some pp \<Rightarrow>
          (case packedFiles c of
             None \<Rightarrow> []
           | Some files \<Rightarrow> if p \<in> set files then [] else [fileNotPublished pp]))"

text \<open>The \<open>catch\<close> branch of \<open>readFile\<close>: the extensions to try, then the report.\<close>

fun tryExtensions :: "ctx \<Rightarrow> string \<Rightarrow> string list option \<Rightarrow> string list
    \<Rightarrow> string option \<times> message list" where
  "tryExtensions c p pkgPath [] =
     (None,
      case pkgPath of
        None \<Rightarrow> []
      | Some pp \<Rightarrow> [\<lparr>m_code = FILE_DOES_NOT_EXIST, m_args = [], m_path = pp, m_type = Error\<rparr>])"
| "tryExtensions c p pkgPath (ext # exts) =
     (case readFile (vfs c) (p @ (if startsWith ext ''/'' \<and> endsWith p ''/'' then drop 1 ext else ext)) of
        Some content \<Rightarrow>
          (Some content,
           notPublished c pkgPath
             (p @ (if startsWith ext ''/'' \<and> endsWith p ''/'' then drop 1 ext else ext)))
      | None \<Rightarrow> tryExtensions c p pkgPath exts)"

text \<open>
  \<open>readFile\<close> of \<open>core\<close>: the content, or \<open>None\<close> for \<open>false\<close>, and the diagnostics it
  pushes.  \<open>pkgPath\<close> is \<open>None\<close> when the caller passes \<open>undefined\<close>.
\<close>

definition core_readFile :: "ctx \<Rightarrow> string \<Rightarrow> string list option \<Rightarrow> string list
    \<Rightarrow> string option \<times> message list" where
  "core_readFile c p pkgPath exts =
     (case readFile (vfs c) p of
        Some content \<Rightarrow> (Some content, notPublished c pkgPath p)
      | None \<Rightarrow> tryExtensions c p pkgPath exts)"

text \<open>\<open>hasInvalidJsxExtension\<close>: the answer and the diagnostics it pushes.\<close>

definition hasInvalidJsxExtension :: "ctx \<Rightarrow> string \<Rightarrow> string list \<Rightarrow> string option
    \<Rightarrow> bool \<times> message list" where
  "hasInvalidJsxExtension c filePath currentPath globbedFilePath =
     (case find (\<lambda>ext. endsWith filePath ext) (invalidJsxExts c) of
        None \<Rightarrow> (False, [])
      | Some matched \<Rightarrow>
          if matched = [] then (False, [])
          else (True,
                [\<lparr>m_code = FILE_INVALID_JSX_EXTENSION,
                  m_args = [(''actualExtension'', AStr matched),
                            (''globbedFilePath'',
                             case globbedFilePath of None \<Rightarrow> AUndefined | Some g \<Rightarrow> AStr g)],
                  m_path = currentPath, m_type = Error\<rparr>]))"

definition ensureTypeOfField :: "json option \<Rightarrow> string list \<Rightarrow> string list \<Rightarrow> bool \<times> message list" where
  "ensureTypeOfField fieldValue expectTypes pkgPath =
     (if typeof fieldValue \<in> set expectTypes then (True, [])
      else (False,
            [\<lparr>m_code = FIELD_INVALID_VALUE_TYPE,
              m_args = [(''actualType'', AStr (typeof fieldValue)), (''expectTypes'', AStrs expectTypes)],
              m_path = pkgPath, m_type = Error\<rparr>]))"

text \<open>The fields \<open>exports\<close> and \<open>browser\<close> that \<open>core\<close> reads once, with their paths.\<close>

definition exportsField :: "ctx \<Rightarrow> json option" where
  "exportsField c = fst (getPublishedField (rootPkg c) ''exports'')"

definition exportsPkgPath :: "ctx \<Rightarrow> string list" where
  "exportsPkgPath c = snd (getPublishedField (rootPkg c) ''exports'')"

definition browserField :: "ctx \<Rightarrow> json option" where
  "browserField c = fst (getPublishedField (rootPkg c) ''browser'')"

definition browserPkgPath :: "ctx \<Rightarrow> string list" where
  "browserPkgPath c = snd (getPublishedField (rootPkg c) ''browser'')"

text \<open>\<open>currentPath[1]\<close>\<close>

definition second :: "string list \<Rightarrow> string option" where
  "second xs = (case xs of a # b # rest \<Rightarrow> Some b | _ \<Rightarrow> None)"

definition getExportsFiles :: "nat \<Rightarrow> ctx \<Rightarrow> string \<Rightarrow> string option \<Rightarrow> json option
    \<Rightarrow> string list option" where
  "getExportsFiles n c exportsValue exportsKey exports =
     (if includes_str exportsValue ''*''
      then exportsGlob n
             (if isRelativePath exportsValue then pathJoin (vfs c) (pkgDir c) exportsValue
              else exportsValue)
             (vfs c) (packedFiles c) exportsKey exports
      else Some [if isRelativePath exportsValue then pathJoin (vfs c) (pkgDir c) exportsValue
                 else exportsValue])"

section \<open>core.js: crawling \<open>exports\<close> and \<open>imports\<close>\<close>

text \<open>
  What \<open>crawlExportsOrImports\<close> does while it walks the tree: it pushes diagnostics, and for
  every string it starts a task on the promise queue, with the value, the path and the
  two flags of the call.  The tasks are run by \<open>leafTask\<close> below.
\<close>

datatype event = Msg message | Task string "string list" bool bool

fun msgs_of :: "event list \<Rightarrow> message list" where
  "msgs_of [] = []"
| "msgs_of (Msg m # evs) = m # msgs_of evs"
| "msgs_of (Task s p i a # evs) = msgs_of evs"

text \<open>\<open>exportsKeys.indexOf(key)\<close>\<close>

definition indexOf :: "string list \<Rightarrow> string \<Rightarrow> int" where
  "indexOf keys k =
     (if k \<in> set keys then int (length (takeWhile (\<lambda>x. x \<noteq> k) keys)) else - 1)"

text \<open>
  The keys before \<open>types\<close> that are left by the filter: not a key that starts with
  \<open>types\<close>, not a raw TypeScript file, not an object that holds one.
\<close>

definition precedingKeys :: "(string \<times> json) list \<Rightarrow> (string \<times> json) list" where
  "precedingKeys kvs =
     filter (\<lambda>(key, val).
               \<not> startsWith key ''types'' \<and>
               \<not> (case val of JStr s \<Rightarrow> isFilePathRawTs s | _ \<Rightarrow> False) \<and>
               \<not> (is_object val \<and> objectHasValueNested val isFilePathRawTs))
            (takeWhile (\<lambda>(key, val). key \<noteq> ''types'') kvs)"

definition typesShouldBeFirst :: "(string \<times> json) list \<Rightarrow> string list \<Rightarrow> bool \<Rightarrow> message list" where
  "typesShouldBeFirst kvs currentPath isImports =
     (if \<not> isImports \<and> ''types'' \<in> set (map fst kvs) \<and> take 1 (map fst kvs) \<noteq> [''types'']
      then (if precedingKeys kvs \<noteq> [] \<and>
               \<not> list_ex (\<lambda>(key, val). is_object val \<and> objectHasKeyNested val ''types'')
                    (precedingKeys kvs)
            then [\<lparr>m_code = EXPORTS_TYPES_SHOULD_BE_FIRST, m_args = [],
                   m_path = currentPath @ [''types''], m_type = Error\<rparr>]
            else [])
      else [])"

definition moduleShouldPrecedeRequire :: "(string \<times> json) list \<Rightarrow> string list \<Rightarrow> bool \<Rightarrow> message list" where
  "moduleShouldPrecedeRequire kvs currentPath isImports =
     (if ''module'' \<in> set (map fst kvs) \<and> ''require'' \<in> set (map fst kvs) \<and>
         indexOf (map fst kvs) ''module'' > indexOf (map fst kvs) ''require''
      then [\<lparr>m_code = (if isImports then IMPORTS_MODULE_SHOULD_PRECEDE_REQUIRE
                        else EXPORTS_MODULE_SHOULD_PRECEDE_REQUIRE),
             m_args = [], m_path = currentPath @ [''module''], m_type = Error\<rparr>]
      else [])"

definition defaultShouldBeLast :: "(string \<times> json) list \<Rightarrow> string list \<Rightarrow> bool \<Rightarrow> message list" where
  "defaultShouldBeLast kvs currentPath isImports =
     (if ''default'' \<in> set (map fst kvs) \<and> (kvs = [] \<or> last (map fst kvs) \<noteq> ''default'')
      then [\<lparr>m_code = (if isImports then IMPORTS_DEFAULT_SHOULD_BE_LAST
                        else EXPORTS_DEFAULT_SHOULD_BE_LAST),
             m_args = [], m_path = currentPath @ [''default''], m_type = Error\<rparr>]
      else [])"

text \<open>\<open>key.replace(/^[\/]+/, '')\<close>\<close>

definition stripLeadingSlashes :: "string \<Rightarrow> string" where
  "stripLeadingSlashes s = dropWhile (\<lambda>c. c = CHR ''/'') s"

definition importsKeyInvalid :: "string \<Rightarrow> string list \<Rightarrow> message" where
  "importsKeyInvalid key currentPath =
     \<lparr>m_code = IMPORTS_KEY_INVALID,
      m_args = [(''suggestKey'', AStr (''#'' @ stripLeadingSlashes key))],
      m_path = currentPath @ [key], m_type = Error\<rparr>"

text \<open>
  \<open>crawlExportsOrImports\<close>, with the loop over the elements of an array
  (\<open>crawlElems\<close>, from an index on) and the loop over the keys of an object
  (\<open>crawlEntries\<close>, with \<open>isCurrentPathImports\<close> and the running
  \<open>isKeyAfterNodeCondition\<close>).  A value that is truthy and neither a string, an array
  nor an object makes the operator \<open>in\<close> throw.  The names that \<open>in\<close> is asked about
  (\<open>types\<close>, \<open>module\<close>, \<open>require\<close>, \<open>default\<close>) are not names of members that an
  object inherits, so they are looked for among the keys.
\<close>

fun crawlExportsOrImports :: "json \<Rightarrow> string list \<Rightarrow> bool \<Rightarrow> bool \<Rightarrow> event list outcome"
  and crawlElems :: "json list \<Rightarrow> nat \<Rightarrow> string list \<Rightarrow> bool \<Rightarrow> bool \<Rightarrow> event list outcome"
  and crawlEntries :: "(string \<times> json) list \<Rightarrow> string list \<Rightarrow> bool \<Rightarrow> bool \<Rightarrow> bool
    \<Rightarrow> event list outcome" where
  "crawlExportsOrImports (JStr s) currentPath isImports isAfterNodeCondition =
     Done [Task s currentPath isImports isAfterNodeCondition]"
| "crawlExportsOrImports (JArr xs) currentPath isImports isAfterNodeCondition =
     (case crawlElems xs 0 currentPath isImports isAfterNodeCondition of
        Done evs \<Rightarrow>
          Done (Msg \<lparr>m_code = (if isImports then IMPORTS_FALLBACK_ARRAY_USE
                                else EXPORTS_FALLBACK_ARRAY_USE),
                     m_args = [], m_path = currentPath, m_type = Warning\<rparr> # evs)
      | Thrown \<Rightarrow> Thrown
      | Pending \<Rightarrow> Pending)"
| "crawlExportsOrImports JNull currentPath isImports isAfterNodeCondition = Done []"
| "crawlExportsOrImports (JBool b) currentPath isImports isAfterNodeCondition =
     (if b then Thrown else Done [])"
| "crawlExportsOrImports (JNum n) currentPath isImports isAfterNodeCondition =
     (if n \<noteq> 0 then Thrown else Done [])"
| "crawlExportsOrImports (JObj kvs) currentPath isImports isAfterNodeCondition =
     (case crawlEntries kvs currentPath isImports
             (isImports \<and> currentPath \<noteq> [] \<and> last currentPath = ''imports'')
             isAfterNodeCondition of
        Done evs \<Rightarrow>
          Done (map Msg (typesShouldBeFirst kvs currentPath isImports @
                         moduleShouldPrecedeRequire kvs currentPath isImports @
                         defaultShouldBeLast kvs currentPath isImports) @ evs)
      | Thrown \<Rightarrow> Thrown
      | Pending \<Rightarrow> Pending)"
| "crawlElems [] i currentPath isImports isAfterNodeCondition = Done []"
| "crawlElems (x # xs) i currentPath isImports isAfterNodeCondition =
     (case crawlExportsOrImports x (currentPath @ [show_nat i]) isImports isAfterNodeCondition of
        Done evs \<Rightarrow>
          (case crawlElems xs (Suc i) currentPath isImports isAfterNodeCondition of
             Done evs' \<Rightarrow> Done (evs @ evs')
           | Thrown \<Rightarrow> Thrown
           | Pending \<Rightarrow> Pending)
      | Thrown \<Rightarrow> Thrown
      | Pending \<Rightarrow> Pending)"
| "crawlEntries [] currentPath isImports isCurrentPathImports isKeyAfterNodeCondition = Done []"
| "crawlEntries ((key, val) # kvs) currentPath isImports isCurrentPathImports isKeyAfterNodeCondition =
     (case crawlExportsOrImports val (currentPath @ [key]) isImports isKeyAfterNodeCondition of
        Done evs \<Rightarrow>
          (case crawlEntries kvs currentPath isImports isCurrentPathImports
                  (isKeyAfterNodeCondition \<or> key = ''node'') of
             Done evs' \<Rightarrow>
               Done ((if isCurrentPathImports \<and> \<not> startsWith key ''#''
                      then [Msg (importsKeyInvalid key currentPath)] else []) @ evs @ evs')
           | Thrown \<Rightarrow> Thrown
           | Pending \<Rightarrow> Pending)
      | Thrown \<Rightarrow> Thrown
      | Pending \<Rightarrow> Pending)"

section \<open>core.js: the task for a string in \<open>exports\<close> or \<open>imports\<close>\<close>

text \<open>Pieces that run one after the other inside a task.\<close>

fun seq :: "message list outcome \<Rightarrow> message list outcome \<Rightarrow> message list outcome" where
  "seq (Done a) (Done b) = Done (a @ b)"
| "seq (Done a) Thrown = Thrown"
| "seq (Done a) Pending = Pending"
| "seq Thrown r = Thrown"
| "seq Pending r = Pending"

text \<open>The \<open>expectPath\<close> of a deprecated subpath mapping: a star after every part that ends in a slash.\<close>

definition expectPathOf :: "string list \<Rightarrow> string list" where
  "expectPathOf currentPath = map (\<lambda>part. if endsWith part ''/'' then part @ ''*'' else part) currentPath"

text \<open>The block \<open>if (exportsValue.endsWith('/'))\<close>, without the assignment at its end.\<close>

definition subpathMapping :: "ctx \<Rightarrow> string \<Rightarrow> string list \<Rightarrow> bool \<Rightarrow> message list outcome" where
  "subpathMapping c exportsValue currentPath isImports =
     (if endsWith exportsValue ''/''
      then (case getPkgPathValue (builtinWalk c) (Some (rootPkg c)) (expectPathOf currentPath) of
              Done found \<Rightarrow>
                Done [\<lparr>m_code = (if isImports then IMPORTS_GLOB_NO_DEPRECATED_SUBPATH_MAPPING
                                  else EXPORTS_GLOB_NO_DEPRECATED_SUBPATH_MAPPING),
                       m_args = [(''expectPath'', AStrs (expectPathOf currentPath)),
                                 (''expectValue'', AStr (exportsValue @ ''*''))],
                       m_path = currentPath,
                       m_type = (if truthy_val found then Suggestion else Error)\<rparr>]
            | Thrown \<Rightarrow> Thrown
            | Pending \<Rightarrow> Pending)
      else Done [])"

text \<open>\<open>exportsValue += '*'\<close> at the end of that block.\<close>

definition fixedValue :: "string \<Rightarrow> string" where
  "fixedValue exportsValue = (if endsWith exportsValue ''/'' then exportsValue @ ''*'' else exportsValue)"

definition valueInvalid :: "string \<Rightarrow> string list \<Rightarrow> bool \<Rightarrow> message list" where
  "valueInvalid exportsValue currentPath isImports =
     (if \<not> startsWith exportsValue ''./''
      then [\<lparr>m_code = (if isImports then IMPORTS_VALUE_INVALID else EXPORTS_VALUE_INVALID),
             m_args = [(''suggestValue'', AStr (''./'' @ stripLeadingSlashes exportsValue))],
             m_path = currentPath, m_type = Error\<rparr>]
      else [])"

definition noMatchedFiles :: "string list \<Rightarrow> bool \<Rightarrow> message" where
  "noMatchedFiles currentPath isImports =
     \<lparr>m_code = (if isImports then IMPORTS_GLOB_NO_MATCHED_FILES else EXPORTS_GLOB_NO_MATCHED_FILES),
      m_args = [], m_path = currentPath, m_type = Warning\<rparr>"

text \<open>
  The check against the \<open>browser\<close> field.  \<open>typeof null\<close> is \<open>'object'\<close>, and the
  operator \<open>in\<close> throws on \<open>null\<close>.
\<close>

definition browserConflict :: "ctx \<Rightarrow> string \<Rightarrow> string list \<Rightarrow> bool \<Rightarrow> message list outcome" where
  "browserConflict c exportsValue currentPath isImports =
     (if isImports then Done []
      else (case browserField c of
              None \<Rightarrow> Done []
            | Some browser \<Rightarrow>
                if \<not> is_object browser then Done []
                else if browser = JNull then Thrown
                else if \<not> js_in exportsValue browser then Done []
                else (case find (\<lambda>cond. cond \<in> set currentPath) (browserishConditions c) of
                        None \<Rightarrow> Done []
                      | Some browserishCondition \<Rightarrow>
                          if browserishCondition = [] then Done []
                          else Done [\<lparr>m_code = EXPORTS_VALUE_CONFLICTS_WITH_BROWSER,
                                      m_args = [(''browserPath'', AStrs (browserPkgPath c @ [exportsValue])),
                                                (''browserishCondition'', AStr browserishCondition)],
                                      m_path = currentPath, m_type = Warning\<rparr>])))"

text \<open>
  The format check on the content of a file that \<open>exports\<close> or \<open>imports\<close> reaches: the
  body of the task pushed for the file, after the content has been read.
\<close>

definition lintExportedContent :: "ctx \<Rightarrow> string \<Rightarrow> string list \<Rightarrow> bool \<Rightarrow> bool \<Rightarrow> bool
    \<Rightarrow> string \<Rightarrow> string \<Rightarrow> message list outcome" where
  "lintExportedContent c exportsValue currentPath isImports isAfterNodeCondition isGlob filePath fileContent =
     (if \<not> isFileContentLintable fileContent then Done []
      else if ''module'' \<in> set currentPath
      then Done (if getCodeFormat fileContent = CJS
                 then [\<lparr>m_code = (if isImports then IMPORTS_MODULE_SHOULD_BE_ESM
                                   else EXPORTS_MODULE_SHOULD_BE_ESM),
                        m_args = [], m_path = currentPath, m_type = Error\<rparr>]
                 else [])
      else if isAfterNodeCondition \<or> ''browser'' \<in> set currentPath then Done []
      else (case getFilePathFormat (parseJSON c) (vfs c) filePath of
              None \<Rightarrow> Pending
            | Some expectFormat \<Rightarrow>
                if getCodeFormat fileContent \<noteq> expectFormat \<and>
                   getCodeFormat fileContent \<noteq> Unknown \<and>
                   getCodeFormat fileContent \<noteq> Mixed
                then (if getCodeFormat fileContent = ESM \<and>
                         (includes_str filePath ''browser'' \<or> includes_str filePath ''bundler'')
                      then Done []
                      else if isGlob \<and>
                              isPathExist (vfs c)
                                (replaceLast filePath (getExtName (vfs c) filePath)
                                   (getCodeFormatExtension (getCodeFormat fileContent)))
                      then Done []
                      else Done [\<lparr>m_code = (if isExplicitExtension (getExtName (vfs c) filePath)
                                             then FILE_INVALID_EXPLICIT_FORMAT else FILE_INVALID_FORMAT),
                                  m_args = [(''actualFormat'', AFormat (getCodeFormat fileContent)),
                                            (''expectFormat'', AFormat expectFormat),
                                            (''actualExtension'', AStr (getExtName (vfs c) filePath)),
                                            (''expectExtension'',
                                             AStr (getCodeFormatExtension (getCodeFormat fileContent))),
                                            (''actualFilePath'',
                                             AStr (if isGlob
                                                   then ''./'' @ pathRelative (vfs c) (pkgDir c) filePath
                                                   else exportsValue))],
                                  m_path = currentPath, m_type = Warning\<rparr>])
                else Done []))"

text \<open>The body of the loop \<open>for (const filePath of exportsFiles)\<close>.\<close>

definition lintExportedFile :: "ctx \<Rightarrow> string \<Rightarrow> string list \<Rightarrow> bool \<Rightarrow> bool \<Rightarrow> bool
    \<Rightarrow> string \<Rightarrow> message list outcome" where
  "lintExportedFile c exportsValue currentPath isImports isAfterNodeCondition isGlob filePath =
     (case hasInvalidJsxExtension c filePath currentPath
             (if isGlob then Some (''./'' @ pathRelative (vfs c) (pkgDir c) filePath) else None) of
        (True, ms) \<Rightarrow> Done ms
      | (False, ms) \<Rightarrow>
          if \<not> isFilePathLintable (lintableExts c) filePath
          then (if isAbsolutePath filePath \<and> \<not> isFilePathRawTs filePath
                then Done (snd (core_readFile c filePath (Some currentPath) []))
                else Done [])
          else (case core_readFile c filePath (Some currentPath) [] of
                  (None, ms') \<Rightarrow> Done ms'
                | (Some fileContent, ms') \<Rightarrow>
                    seq (Done ms')
                      (lintExportedContent c exportsValue currentPath isImports
                         isAfterNodeCondition isGlob filePath fileContent)))"

fun lintExportedFiles :: "ctx \<Rightarrow> string \<Rightarrow> string list \<Rightarrow> bool \<Rightarrow> bool \<Rightarrow> bool
    \<Rightarrow> string list \<Rightarrow> message list outcome" where
  "lintExportedFiles c exportsValue currentPath isImports isAfterNodeCondition isGlob [] = Done []"
| "lintExportedFiles c exportsValue currentPath isImports isAfterNodeCondition isGlob (filePath # rest) =
     both (lintExportedFile c exportsValue currentPath isImports isAfterNodeCondition isGlob filePath)
          (lintExportedFiles c exportsValue currentPath isImports isAfterNodeCondition isGlob rest)"

text \<open>
  The task from the call of \<open>getExportsFiles\<close> on; \<open>exportsValue\<close> is the value after the
  star has been added, \<open>pushed\<close> what the task has pushed before.
\<close>

definition leafFiles :: "nat \<Rightarrow> ctx \<Rightarrow> string \<Rightarrow> string list \<Rightarrow> bool \<Rightarrow> bool \<Rightarrow> message list
    \<Rightarrow> message list outcome" where
  "leafFiles n c exportsValue currentPath isImports isAfterNodeCondition pushed =
     (case getExportsFiles n c exportsValue (second currentPath) (exportsField c) of
        None \<Rightarrow> Pending
      | Some exportsFiles \<Rightarrow>
          if includes_str exportsValue ''*'' \<and> exportsFiles = []
          then Done (pushed @ [noMatchedFiles currentPath isImports])
          else seq (Done pushed)
                 (seq (browserConflict c exportsValue currentPath isImports)
                    (lintExportedFiles c exportsValue currentPath isImports isAfterNodeCondition
                       (includes_str exportsValue ''*'') exportsFiles)))"

text \<open>
  The task that \<open>crawlExportsOrImports\<close> pushes for a string.  The first argument bounds
  the depth of the directories a glob may walk.
\<close>

definition leafTask :: "nat \<Rightarrow> ctx \<Rightarrow> string \<Rightarrow> string list \<Rightarrow> bool \<Rightarrow> bool \<Rightarrow> message list outcome" where
  "leafTask n c exportsValue currentPath isImports isAfterNodeCondition =
     (if isImports \<and> \<not> startsWith exportsValue ''.'' then Done []
      else (case subpathMapping c exportsValue currentPath isImports of
              Done pushed \<Rightarrow>
                leafFiles n c (fixedValue exportsValue) currentPath isImports isAfterNodeCondition
                  (pushed @ valueInvalid (fixedValue exportsValue) currentPath isImports)
            | Thrown \<Rightarrow> Thrown
            | Pending \<Rightarrow> Pending))"

text \<open>A crawl with its tasks run: everything the crawl of a field adds to \<open>messages\<close>.\<close>

fun runEvents :: "nat \<Rightarrow> ctx \<Rightarrow> event list \<Rightarrow> message list outcome" where
  "runEvents n c [] = Done []"
| "runEvents n c (Msg m # evs) = both (Done [m]) (runEvents n c evs)"
| "runEvents n c (Task exportsValue currentPath isImports isAfterNodeCondition # evs) =
     both (leafTask n c exportsValue currentPath isImports isAfterNodeCondition) (runEvents n c evs)"

definition runCrawl :: "nat \<Rightarrow> ctx \<Rightarrow> json \<Rightarrow> string list \<Rightarrow> bool \<Rightarrow> message list outcome" where
  "runCrawl n c exportsValue currentPath isImports =
     (case crawlExportsOrImports exportsValue currentPath isImports False of
        Done evs \<Rightarrow> runEvents n c evs
      | Thrown \<Rightarrow> Thrown
      | Pending \<Rightarrow> Pending)"

section \<open>core.js: the declaration files of the root entry point\<close>

text \<open>\<open>findTypesFilePath\<close>; the result is \<open>None\<close> for \<open>undefined\<close>.\<close>

definition findTypesFilePath :: "ctx \<Rightarrow> string option \<Rightarrow> json option" where
  "findTypesFilePath c exportsKey =
     (if exportsKey = None \<or> exportsKey = Some ''.''
      then (if truthy (fst (getPublishedField (rootPkg c) ''types''))
            then fst (getPublishedField (rootPkg c) ''types'')
            else if truthy (fst (getPublishedField (rootPkg c) ''typings''))
            then fst (getPublishedField (rootPkg c) ''typings'')
            else if truthy (map_option JStr
                      (fst (core_readFile c (pathJoin (vfs c) (pkgDir c) ''./index.d.ts'') None [])))
            then Some (JStr ''./index.d.ts'')
            else None)
      else None)"

text \<open>\<open>path.join('.')\<close>\<close>

fun join_dot :: "string list \<Rightarrow> string" where
  "join_dot [] = []"
| "join_dot [p] = p"
| "join_dot (p # ps) = p @ ''.'' @ join_dot ps"

text \<open>\<open>_resolveExports\<close>: the conditions that are not \<open>undefined\<close>, from the root value.\<close>

definition resolveFrom :: "json option \<Rightarrow> string list \<Rightarrow> string option \<Rightarrow> string list \<Rightarrow> resolved option" where
  "resolveFrom exportsRootValue conditions env exportsPath =
     (case exportsRootValue of
        None \<Rightarrow> None
      | Some root \<Rightarrow>
          resolveExports root
            (conditions @ (case env of None \<Rightarrow> [] | Some e \<Rightarrow> if e = [] then [] else [e]))
            exportsPath)"

text \<open>
  The format that the code file next to the declaration file has by its path; the inner
  \<open>None\<close> is \<open>undefined\<close>, the outer one a walk that does not end.
\<close>

definition siblingFormat :: "ctx \<Rightarrow> string \<Rightarrow> bool \<Rightarrow> resolved option \<Rightarrow> resolved option
    \<Rightarrow> CodeFormat option option" where
  "siblingFormat c format isDualPublish importResult requireResult =
     (if \<not> isDualPublish
      then (case (if format = ''import'' then importResult else requireResult) of
              None \<Rightarrow> Some None
            | Some jsResult \<Rightarrow>
                if isPathExist (vfs c) (pathJoin (vfs c) (pkgDir c) (r_value jsResult))
                then map_option Some
                       (getFilePathFormat (parseJSON c) (vfs c)
                          (pathJoin (vfs c) (pkgDir c) (r_value jsResult)))
                else Some None)
      else Some None)"

definition dtsExpectFormat :: "ctx \<Rightarrow> string \<Rightarrow> bool \<Rightarrow> resolved option \<Rightarrow> resolved option
    \<Rightarrow> CodeFormat option" where
  "dtsExpectFormat c format isDualPublish importResult requireResult =
     map_option
       (\<lambda>found. case found of
                  None \<Rightarrow> if format = ''import'' then ESM else CJS
                | Some f \<Rightarrow> f)
       (siblingFormat c format isDualPublish importResult requireResult)"

text \<open>
  Where the condition belongs: before \<open>types\<close> when \<open>types\<close> ends the path, at the end
  otherwise; nothing is added when the path already names the condition.
\<close>

definition expectPathFor :: "string list \<Rightarrow> string \<Rightarrow> string list" where
  "expectPathFor p format =
     (if format \<in> set p then p
      else if indexOf p ''types'' = int (length p) - 1
      then take (nat (indexOf p ''types'')) p @ [format] @ drop (nat (indexOf p ''types'')) p
      else p @ [format])"

definition typesInvalidFormat :: "ctx \<Rightarrow> string \<Rightarrow> CodeFormat \<Rightarrow> CodeFormat \<Rightarrow> resolved \<Rightarrow> message" where
  "typesInvalidFormat c format dtsActualFormat expectFormat typesResult =
     \<lparr>m_code = EXPORTS_TYPES_INVALID_FORMAT,
      m_args = [(''condition'', AStr format),
                (''actualFormat'', AFormat dtsActualFormat),
                (''expectFormat'', AFormat expectFormat),
                (''actualExtension'', AStr (getExtName (vfs c) (r_value typesResult))),
                (''expectExtension'', AStr (getDtsCodeFormatExtension expectFormat)),
                (''expectPath'', AStrs (expectPathFor (r_path typesResult) format))],
      m_path = r_path typesResult, m_type = Warning\<rparr>"

text \<open>The branch \<open>if (isDtsFile(typesResult.value))\<close>.\<close>

definition checkDtsFormat :: "ctx \<Rightarrow> string \<Rightarrow> bool \<Rightarrow> resolved option \<Rightarrow> resolved option
    \<Rightarrow> resolved \<Rightarrow> message list outcome" where
  "checkDtsFormat c format isDualPublish importResult requireResult typesResult =
     (case getDtsFilePathFormat (parseJSON c) (vfs c)
             (pathJoin (vfs c) (pkgDir c) (r_value typesResult)) of
        None \<Rightarrow> Pending
      | Some dtsActualFormat \<Rightarrow>
          (case dtsExpectFormat c format isDualPublish importResult requireResult of
             None \<Rightarrow> Pending
           | Some expectFormat \<Rightarrow>
               if dtsActualFormat \<noteq> expectFormat
               then Done [typesInvalidFormat c format dtsActualFormat expectFormat typesResult]
               else Done []))"

text \<open>
  The other branch.  A \<open>types\<close> field that is not a string is handed to \<open>pathJoin\<close>,
  which takes strings; that is taken to throw.
\<close>

definition checkAdjacentDts :: "ctx \<Rightarrow> json \<Rightarrow> string \<Rightarrow> resolved \<Rightarrow> message list outcome" where
  "checkAdjacentDts c typesFilePath format typesResult =
     (if isPathExist (vfs c) (pathJoin (vfs c) (pkgDir c) (getAdjacentDtsPath (r_value typesResult)))
      then Done []
      else (case typesFilePath of
              JStr tfp \<Rightarrow>
                (case getDtsFilePathFormat (parseJSON c) (vfs c) (pathJoin (vfs c) (pkgDir c) tfp) of
                   None \<Rightarrow> Pending
                 | Some dtsActualFormat \<Rightarrow>
                     Done [\<lparr>m_code = TYPES_NOT_EXPORTED,
                            m_args = [(''typesFilePath'', AStr tfp),
                                      (''actualExtension'',
                                       if dtsActualFormat = (if format = ''import'' then ESM else CJS)
                                       then AUndefined else AStr (getExtName (vfs c) tfp)),
                                      (''expectExtension'',
                                       if dtsActualFormat = (if format = ''import'' then ESM else CJS)
                                       then AUndefined
                                       else AStr (getDtsCodeFormatExtension
                                                    (if format = ''import'' then ESM else CJS)))],
                            m_path = r_path typesResult, m_type = Warning\<rparr>])
            | _ \<Rightarrow> Thrown))"

text \<open>\<open>importResult && requireResult && importResult.value !== requireResult.value\<close>\<close>

definition isDualPublish :: "resolved option \<Rightarrow> resolved option \<Rightarrow> bool" where
  "isDualPublish importResult requireResult =
     (case importResult of
        None \<Rightarrow> False
      | Some i \<Rightarrow> (case requireResult of None \<Rightarrow> False | Some r \<Rightarrow> r_value i \<noteq> r_value r))"

text \<open>
  The two nested loops of \<open>checkTypesExported\<close>, over the pairs of an environment and a
  format in their order, with the keys seen so far.
\<close>

fun checkTypesLoop :: "ctx \<Rightarrow> json option \<Rightarrow> string list \<Rightarrow> json \<Rightarrow> (string option \<times> string) list
    \<Rightarrow> string list \<Rightarrow> message list outcome" where
  "checkTypesLoop c exportsRootValue exportsPath typesFilePath [] seenResolvedKeys = Done []"
| "checkTypesLoop c exportsRootValue exportsPath typesFilePath ((env, format) # rest) seenResolvedKeys =
     (case resolveFrom exportsRootValue [''types'', format] env exportsPath of
        None \<Rightarrow> checkTypesLoop c exportsRootValue exportsPath typesFilePath rest seenResolvedKeys
      | Some typesResult \<Rightarrow>
          if join_dot (r_path typesResult) @
               (if isDualPublish (resolveFrom exportsRootValue [''import''] env exportsPath)
                     (resolveFrom exportsRootValue [''require''] env exportsPath)
                then format else [])
             \<in> set seenResolvedKeys
          then checkTypesLoop c exportsRootValue exportsPath typesFilePath rest seenResolvedKeys
          else if \<not> isPathExist (vfs c) (pathJoin (vfs c) (pkgDir c) (r_value typesResult))
          then checkTypesLoop c exportsRootValue exportsPath typesFilePath rest
                 ((join_dot (r_path typesResult) @
                     (if isDualPublish (resolveFrom exportsRootValue [''import''] env exportsPath)
                           (resolveFrom exportsRootValue [''require''] env exportsPath)
                      then format else [])) # seenResolvedKeys)
          else seq
                 (if isDtsFile (r_value typesResult)
                  then checkDtsFormat c format
                         (isDualPublish (resolveFrom exportsRootValue [''import''] env exportsPath)
                            (resolveFrom exportsRootValue [''require''] env exportsPath))
                         (resolveFrom exportsRootValue [''import''] env exportsPath)
                         (resolveFrom exportsRootValue [''require''] env exportsPath)
                         typesResult
                  else checkAdjacentDts c typesFilePath format typesResult)
                 (checkTypesLoop c exportsRootValue exportsPath typesFilePath rest
                    ((join_dot (r_path typesResult) @
                        (if isDualPublish (resolveFrom exportsRootValue [''import''] env exportsPath)
                              (resolveFrom exportsRootValue [''require''] env exportsPath)
                         then format else [])) # seenResolvedKeys)))"

definition envFormatPairs :: "(string option \<times> string) list" where
  "envFormatPairs =
     [(None, ''import''), (None, ''require''),
      (Some ''node'', ''import''), (Some ''node'', ''require''),
      (Some ''browser'', ''import''), (Some ''browser'', ''require''),
      (Some ''worker'', ''import''), (Some ''worker'', ''require'')]"

text \<open>
  \<open>exportsRootValue\<close> and \<open>exportsPath\<close> (here \<open>exportsPathOf\<close>) of \<open>checkTypesExported\<close>.  From an
  inherited member of \<open>exports\<close>, a function or an object without enumerable properties,
  nothing resolves, as from \<open>undefined\<close>.
\<close>

definition exportsRootValue :: "ctx \<Rightarrow> string option \<Rightarrow> json option" where
  "exportsRootValue c exportsRootKey =
     (case exportsRootKey of
        None \<Rightarrow> exportsField c
      | Some k \<Rightarrow>
          if k = [] then exportsField c
          else (case exportsField c of
                  None \<Rightarrow> None
                | Some e \<Rightarrow> (case js_index e k of Some (Json x) \<Rightarrow> Some x | _ \<Rightarrow> None)))"

definition exportsPathOf :: "ctx \<Rightarrow> string option \<Rightarrow> string list" where
  "exportsPathOf c exportsRootKey =
     (case exportsRootKey of
        None \<Rightarrow> exportsPkgPath c
      | Some k \<Rightarrow> if k = [] then exportsPkgPath c else exportsPkgPath c @ [k])"

definition checkTypesExported :: "ctx \<Rightarrow> string option \<Rightarrow> message list outcome" where
  "checkTypesExported c exportsRootKey =
     (case findTypesFilePath c exportsRootKey of
        None \<Rightarrow> Done []
      | Some typesFilePath \<Rightarrow>
          if \<not> truthy (Some typesFilePath) then Done []
          else checkTypesLoop c (exportsRootValue c exportsRootKey) (exportsPathOf c exportsRootKey)
                 typesFilePath envFormatPairs [])"

text \<open>
  \<open>doCheckTypesExported\<close>.  It is called for a truthy \<open>exports\<close>; on \<open>null\<close>
  \<open>Object.keys\<close> would throw.
\<close>

definition doCheckTypesExported :: "ctx \<Rightarrow> message list outcome" where
  "doCheckTypesExported c =
     (case exportsField c of
        None \<Rightarrow> Done []
      | Some (JStr s) \<Rightarrow> checkTypesExported c None
      | Some JNull \<Rightarrow> Thrown
      | Some e \<Rightarrow>
          if is_object e
          then (case map fst (js_entries e) of
                  [] \<Rightarrow> Done []
                | k # ks \<Rightarrow>
                    if \<not> startsWith k ''.'' then checkTypesExported c None
                    else if js_in ''.'' e then checkTypesExported c (Some ''.'')
                    else Done [])
          else Done [])"

section \<open>core.js: \<open>main\<close>, \<open>bin\<close> and the files of a package without \<open>exports\<close>\<close>

text \<open>The diagnostic of a file whose content is not of the format its path asks for.\<close>

definition fileInvalidFormat :: "ctx \<Rightarrow> CodeFormat \<Rightarrow> CodeFormat \<Rightarrow> string \<Rightarrow> string list \<Rightarrow> message" where
  "fileInvalidFormat c actualFormat expectFormat filePath pkgPath =
     \<lparr>m_code = (if isExplicitExtension (getExtName (vfs c) filePath)
                 then FILE_INVALID_EXPLICIT_FORMAT else FILE_INVALID_FORMAT),
      m_args = [(''actualFormat'', AFormat actualFormat),
                (''expectFormat'', AFormat expectFormat),
                (''actualExtension'', AStr (getExtName (vfs c) filePath)),
                (''expectExtension'', AStr (getCodeFormatExtension actualFormat))],
      m_path = pkgPath, m_type = Warning\<rparr>"

text \<open>The task for \<open>main\<close>, once the field is known to be a string.\<close>

definition mainTask :: "ctx \<Rightarrow> string \<Rightarrow> string list \<Rightarrow> message list outcome" where
  "mainTask c main mainPkgPath =
     (case core_readFile c (pathJoin (vfs c) (pkgDir c) main) (Some mainPkgPath) [''.js'', ''/index.js''] of
        (None, ms) \<Rightarrow> Done ms
      | (Some mainContent, ms) \<Rightarrow>
          (case hasInvalidJsxExtension c main mainPkgPath None of
             (True, ms') \<Rightarrow> Done (ms @ ms')
           | (False, ms') \<Rightarrow>
               if \<not> isFilePathLintable (lintableExts c) main then Done ms
               else (case getFilePathFormat (parseJSON c) (vfs c) (pathJoin (vfs c) (pkgDir c) main) of
                       None \<Rightarrow> Pending
                     | Some expectFormat \<Rightarrow>
                         Done (ms @
                           (if getCodeFormat mainContent \<noteq> expectFormat \<and>
                               getCodeFormat mainContent \<noteq> Unknown \<and>
                               getCodeFormat mainContent \<noteq> Mixed
                            then [fileInvalidFormat c (getCodeFormat mainContent) expectFormat
                                    (pathJoin (vfs c) (pkgDir c) main) mainPkgPath]
                            else []) @
                           (if getCodeFormat mainContent = ESM \<and>
                               (exportsField c = None \<or> exportsField c = Some JNull)
                            then [\<lparr>m_code = HAS_ESM_MAIN_BUT_NO_EXPORTS, m_args = [],
                                   m_path = mainPkgPath, m_type = Suggestion\<rparr>]
                            else [])))))"

text \<open>The block \<open>if (main != null)\<close>.\<close>

definition checkMain :: "ctx \<Rightarrow> message list outcome" where
  "checkMain c =
     (case fst (getPublishedField (rootPkg c) ''main'') of
        None \<Rightarrow> Done []
      | Some JNull \<Rightarrow> Done []
      | Some (JStr main) \<Rightarrow> mainTask c main (snd (getPublishedField (rootPkg c) ''main''))
      | Some other \<Rightarrow>
          Done (snd (ensureTypeOfField (Some other) [''string'']
                       (snd (getPublishedField (rootPkg c) ''main'')))))"

text \<open>The task of \<open>crawlBin\<close> for a string.\<close>

definition binTask :: "ctx \<Rightarrow> string \<Rightarrow> string list \<Rightarrow> message list outcome" where
  "binTask c binValue currentPath =
     (case core_readFile c (pathJoin (vfs c) (pkgDir c) binValue) (Some currentPath) [''.js'', ''/index.js''] of
        (None, ms) \<Rightarrow> Done ms
      | (Some binContent, ms) \<Rightarrow>
          if \<not> isFilePathLintable (lintableExts c) binValue then Done ms
          else (case getFilePathFormat (parseJSON c) (vfs c) (pathJoin (vfs c) (pkgDir c) binValue) of
                  None \<Rightarrow> Pending
                | Some expectFormat \<Rightarrow>
                    Done (ms @
                      (if \<not> startsWithShebang binContent
                       then [\<lparr>m_code = BIN_FILE_NOT_EXECUTABLE, m_args = [],
                              m_path = currentPath, m_type = Error\<rparr>]
                       else []) @
                      (if getCodeFormat binContent \<noteq> expectFormat \<and>
                          getCodeFormat binContent \<noteq> Unknown \<and>
                          getCodeFormat binContent \<noteq> Mixed
                       then [fileInvalidFormat c (getCodeFormat binContent) expectFormat
                               (pathJoin (vfs c) (pkgDir c) binValue) currentPath]
                       else []))))"

text \<open>\<open>crawlBin\<close>: a string, or an object whose values must be strings.\<close>

fun crawlBinEntries :: "ctx \<Rightarrow> (string \<times> json) list \<Rightarrow> string list \<Rightarrow> message list outcome" where
  "crawlBinEntries c [] currentPath = Done []"
| "crawlBinEntries c ((key, val) # kvs) currentPath =
     both (case val of
             JStr s \<Rightarrow> binTask c s (currentPath @ [key])
           | _ \<Rightarrow> Done (snd (ensureTypeOfField (Some val) [''string''] (currentPath @ [key]))))
          (crawlBinEntries c kvs currentPath)"

definition crawlBin :: "ctx \<Rightarrow> json \<Rightarrow> string list \<Rightarrow> message list outcome" where
  "crawlBin c binValue currentPath =
     (case binValue of
        JStr s \<Rightarrow> binTask c s currentPath
      | _ \<Rightarrow> if is_object binValue then crawlBinEntries c (js_entries binValue) currentPath
             else Done [])"

text \<open>
  The body of the loop over the files of a package without \<open>exports\<close>, with the task it
  pushes for a file.
\<close>

definition lintGlobbedFile :: "ctx \<Rightarrow> string \<Rightarrow> message list outcome" where
  "lintGlobbedFile c filePath =
     (case hasInvalidJsxExtension c filePath [''name'']
             (Some (''/'' @ pathRelative (vfs c) (pkgDir c) filePath)) of
        (True, ms) \<Rightarrow> Done ms
      | (False, ms) \<Rightarrow>
          if \<not> isFilePathLintable (lintableExts c) filePath then Done []
          else (case core_readFile c filePath (Some []) [] of
                  (None, ms') \<Rightarrow> Done ms'
                | (Some fileContent, ms') \<Rightarrow>
                    if \<not> isFileContentLintable fileContent then Done ms'
                    else (case getFilePathFormat (parseJSON c) (vfs c) filePath of
                            None \<Rightarrow> Pending
                          | Some expectFormat \<Rightarrow>
                              if getCodeFormat fileContent \<noteq> expectFormat \<and>
                                 getCodeFormat fileContent \<noteq> Unknown \<and>
                                 getCodeFormat fileContent \<noteq> Mixed
                              then (if getCodeFormat fileContent = ESM \<and>
                                       (includes_str filePath ''browser'' \<or>
                                        includes_str filePath ''bundler'')
                                    then Done ms'
                                    else if isPathExist (vfs c)
                                              (replaceLast filePath (getExtName (vfs c) filePath)
                                                 (getCodeFormatExtension (getCodeFormat fileContent)))
                                    then Done ms'
                                    else Done (ms' @
                                      [\<lparr>m_code = (if isExplicitExtension (getExtName (vfs c) filePath)
                                                   then FILE_INVALID_EXPLICIT_FORMAT
                                                   else FILE_INVALID_FORMAT),
                                        m_args = [(''actualFormat'', AFormat (getCodeFormat fileContent)),
                                                  (''expectFormat'', AFormat expectFormat),
                                                  (''actualExtension'', AStr (getExtName (vfs c) filePath)),
                                                  (''expectExtension'',
                                                   AStr (getCodeFormatExtension (getCodeFormat fileContent))),
                                                  (''actualFilePath'',
                                                   AStr (''/'' @ pathRelative (vfs c) (pkgDir c) filePath))],
                                        m_path = [''name''], m_type = Warning\<rparr>]))
                              else Done ms')))"

fun lintGlobbedFiles :: "ctx \<Rightarrow> string list \<Rightarrow> message list outcome" where
  "lintGlobbedFiles c [] = Done []"
| "lintGlobbedFiles c (filePath # rest) = both (lintGlobbedFile c filePath) (lintGlobbedFiles c rest)"

text \<open>The task of the branch \<open>else\<close> of \<open>if (exports)\<close>: all files can be reached.\<close>

definition lintAllFiles :: "nat \<Rightarrow> ctx \<Rightarrow> message list outcome" where
  "lintAllFiles n c =
     (case exportsGlob n (pathJoin (vfs c) (pkgDir c) ''./*'') (vfs c) (packedFiles c) None None of
        None \<Rightarrow> Pending
      | Some files \<Rightarrow> lintGlobbedFiles c files)"

text \<open>
  The block \<open>if (exports) ... else ...\<close> of \<open>core\<close>: the crawl of \<open>exports\<close> with the
  check of the declaration files, or the lint of all files.
\<close>

definition checkExports :: "nat \<Rightarrow> ctx \<Rightarrow> message list outcome" where
  "checkExports n c =
     (case exportsField c of
        None \<Rightarrow> lintAllFiles n c
      | Some exports \<Rightarrow>
          if truthy (Some exports)
          then both (runCrawl n c exports (exportsPkgPath c) False) (doCheckTypesExported c)
          else lintAllFiles n c)"


text \<open>The block \<open>if (bin)\<close>.\<close>

definition checkBin :: "ctx \<Rightarrow> message list outcome" where
  "checkBin c =
     (case fst (getPublishedField (rootPkg c) ''bin'') of
        None \<Rightarrow> Done []
      | Some bin \<Rightarrow>
          if truthy (Some bin) then crawlBin c bin (snd (getPublishedField (rootPkg c) ''bin''))
          else Done [])"

section \<open>Notions for stating the properties\<close>

text \<open>
  The diagnostics about the keys of a condition map.  Each of them is reported at the path
  of the map extended by one key.
\<close>

definition isKeyDiagnostic :: "msg_code \<Rightarrow> bool" where
  "isKeyDiagnostic code =
     (code \<in> {EXPORTS_TYPES_SHOULD_BE_FIRST,
               EXPORTS_MODULE_SHOULD_PRECEDE_REQUIRE, IMPORTS_MODULE_SHOULD_PRECEDE_REQUIRE,
               EXPORTS_DEFAULT_SHOULD_BE_LAST, IMPORTS_DEFAULT_SHOULD_BE_LAST,
               IMPORTS_KEY_INVALID})"

text \<open>The diagnostics about the keys of the map at a path: one key below the path.\<close>

definition ofMap :: "string list \<Rightarrow> message \<Rightarrow> bool" where
  "ofMap currentPath m =
     (isKeyDiagnostic (m_code m) \<and> length (m_path m) = Suc (length currentPath))"

definition isPrecedence :: "message \<Rightarrow> bool" where
  "isPrecedence m =
     (m_code m = EXPORTS_MODULE_SHOULD_PRECEDE_REQUIRE \<or>
      m_code m = IMPORTS_MODULE_SHOULD_PRECEDE_REQUIRE)"

definition isDefaultLast :: "message \<Rightarrow> bool" where
  "isDefaultLast m =
     (m_code m = EXPORTS_DEFAULT_SHOULD_BE_LAST \<or> m_code m = IMPORTS_DEFAULT_SHOULD_BE_LAST)"

definition isKeyInvalid :: "message \<Rightarrow> bool" where
  "isKeyInvalid m = (m_code m = IMPORTS_KEY_INVALID)"

definition isFormatMismatch :: "message \<Rightarrow> bool" where
  "isFormatMismatch m =
     (m_code m = FILE_INVALID_FORMAT \<or> m_code m = FILE_INVALID_EXPLICIT_FORMAT)"

text \<open>
  A condition tree: strings, arrays, maps and \<open>null\<close>, and the scalars that are falsy.  On
  any other value the crawl throws.
\<close>

fun condTree :: "json \<Rightarrow> bool"
  and condTrees :: "json list \<Rightarrow> bool"
  and condEntries :: "(string \<times> json) list \<Rightarrow> bool" where
  "condTree (JStr s) = True"
| "condTree JNull = True"
| "condTree (JBool b) = (\<not> b)"
| "condTree (JNum n) = (n = 0)"
| "condTree (JArr xs) = condTrees xs"
| "condTree (JObj kvs) = condEntries kvs"
| "condTrees [] = True"
| "condTrees (x # xs) = (condTree x \<and> condTrees xs)"
| "condEntries [] = True"
| "condEntries ((k, v) # kvs) = (condTree v \<and> condEntries kvs)"


subsection \<open>The check of the declaration files, in the words of its description\<close>

text \<open>
  The notions below follow the description of the check, not the code; they are here to be
  compared with \<open>checkTypesExported\<close>.  A package is dual-publishing in an environment
  when \<open>import\<close> and \<open>require\<close> both resolve there, to different files.
\<close>

definition dualPublishing :: "json option \<Rightarrow> string list \<Rightarrow> string option \<Rightarrow> bool" where
  "dualPublishing root exportsPath env =
     (case (resolveFrom root [''import''] env exportsPath, resolveFrom root [''require''] env exportsPath) of
        (Some i, Some r) \<Rightarrow> r_value i \<noteq> r_value r
      | _ \<Rightarrow> False)"

text \<open>
  The pairs of an environment and a format for which \<open>types\<close>, the format and the
  environment resolve to a declaration file, each with the key under which the file counts
  as seen: its resolution path, followed by the format when the package is dual-publishing.
\<close>

definition resolvedTypes :: "json option \<Rightarrow> string list \<Rightarrow> (string option \<times> string) list
    \<Rightarrow> (string \<times> string option \<times> string \<times> resolved) list" where
  "resolvedTypes root exportsPath pairs =
     concat (map (\<lambda>(env, format).
                    case resolveFrom root [''types'', format] env exportsPath of
                      None \<Rightarrow> []
                    | Some typesResult \<Rightarrow>
                        [(join_dot (r_path typesResult) @
                            (if dualPublishing root exportsPath env then format else []),
                          env, format, typesResult)])
                 pairs)"

text \<open>Of the entries of a list, the first one for each key.\<close>

fun firstOfKey :: "('k \<times> 'a) list \<Rightarrow> ('k \<times> 'a) list" where
  "firstOfKey [] = []"
| "firstOfKey (x # xs) = x # firstOfKey (filter (\<lambda>y. fst y \<noteq> fst x) xs)"

text \<open>
  The expected format of a declaration file resolved for a format and an environment: that
  of the code file resolved for the same format and environment, by its path, when the
  package is not dual-publishing and that file exists; else the one the condition names.
  \<open>None\<close> is a walk to the nearest manifest that does not end.
\<close>

definition expectedDtsFormat :: "ctx \<Rightarrow> json option \<Rightarrow> string list \<Rightarrow> string option \<Rightarrow> string
    \<Rightarrow> CodeFormat option" where
  "expectedDtsFormat c root exportsPath env format =
     (case (if dualPublishing root exportsPath env then None
            else resolveFrom root [format] env exportsPath) of
        None \<Rightarrow> Some (if format = ''import'' then ESM else CJS)
      | Some code \<Rightarrow>
          if isPathExist (vfs c) (pathJoin (vfs c) (pkgDir c) (r_value code))
          then getFilePathFormat (parseJSON c) (vfs c) (pathJoin (vfs c) (pkgDir c) (r_value code))
          else Some (if format = ''import'' then ESM else CJS))"

text \<open>
  Where the condition is to be inserted: nowhere when the path names it already; before
  \<open>types\<close> when \<open>types\<close> occurs in the path as its last part only; at the end otherwise.
\<close>

definition insertionPath :: "string list \<Rightarrow> string \<Rightarrow> string list" where
  "insertionPath p format =
     (if format \<in> set p then p
      else if p \<noteq> [] \<and> last p = ''types'' \<and> ''types'' \<notin> set (butlast p)
      then butlast p @ [format, ''types'']
      else p @ [format])"

text \<open>
  The check of one declaration file.  Nothing is reported for a file that does not exist.
  For a \<open>.d.ts\<close>, \<open>.d.mts\<close> or \<open>.d.cts\<close> file the diagnostic is reported exactly when
  the actual format differs from the expected one.  Any other file is left to
  \<open>checkAdjacentDts\<close>.
\<close>

definition declarationCheck :: "ctx \<Rightarrow> json option \<Rightarrow> string list \<Rightarrow> json
    \<Rightarrow> string \<times> string option \<times> string \<times> resolved \<Rightarrow> message list outcome" where
  "declarationCheck c root exportsPath typesFilePath entry =
     (case entry of (key, env, format, typesResult) \<Rightarrow>
        if \<not> isPathExist (vfs c) (pathJoin (vfs c) (pkgDir c) (r_value typesResult)) then Done []
        else if isDtsFile (r_value typesResult)
        then (case getDtsFilePathFormat (parseJSON c) (vfs c)
                     (pathJoin (vfs c) (pkgDir c) (r_value typesResult)) of
                None \<Rightarrow> Pending
              | Some actual \<Rightarrow>
                  (case expectedDtsFormat c root exportsPath env format of
                     None \<Rightarrow> Pending
                   | Some expected \<Rightarrow>
                       Done (if actual \<noteq> expected
                             then [\<lparr>m_code = EXPORTS_TYPES_INVALID_FORMAT,
                                    m_args = [(''condition'', AStr format),
                                              (''actualFormat'', AFormat actual),
                                              (''expectFormat'', AFormat expected),
                                              (''actualExtension'',
                                               AStr (getExtName (vfs c) (r_value typesResult))),
                                              (''expectExtension'',
                                               AStr (if expected = ESM then ''.mts''
                                                     else if expected = CJS then ''.cts'' else ''.ts'')),
                                              (''expectPath'',
                                               AStrs (insertionPath (r_path typesResult) format))],
                                    m_path = r_path typesResult, m_type = Warning\<rparr>]
                             else [])))
        else checkAdjacentDts c typesFilePath format typesResult)"

text \<open>
  The whole check: the declaration files resolved for the pairs in their order, each
  checked the first time its key is met, one check after the other.
\<close>

definition declarationChecks :: "ctx \<Rightarrow> json option \<Rightarrow> string list \<Rightarrow> json
    \<Rightarrow> (string option \<times> string) list \<Rightarrow> message list outcome" where
  "declarationChecks c root exportsPath typesFilePath pairs =
     foldr seq
       (map (declarationCheck c root exportsPath typesFilePath)
          (firstOfKey (resolvedTypes root exportsPath pairs)))
       (Done [])"

section \<open>Example packages\<close>

text \<open>POSIX paths for the example file trees.\<close>

definition posix_dirname :: "string \<Rightarrow> string" where
  "posix_dirname p =
     (if rev (drop 1 (dropWhile (\<lambda>c. c \<noteq> CHR ''/'') (rev p))) = [] then ''/''
      else rev (drop 1 (dropWhile (\<lambda>c. c \<noteq> CHR ''/'') (rev p))))"

definition posix_join :: "string \<Rightarrow> string \<Rightarrow> string" where
  "posix_join a b = (if endsWith a ''/'' then a @ b else a @ ''/'' @ b)"

definition quoted :: "string \<Rightarrow> string" where
  "quoted s = CHR 0x22 # s @ [CHR 0x22]"

text \<open>The manifest text \<open>{"type":"module"}\<close>.\<close>

definition type_module_text :: string where
  "type_module_text = ''{'' @ quoted ''type'' @ '':'' @ quoted ''module'' @ ''}''"

text \<open>\<open>JSON.parse\<close> on the manifest texts of the examples; it throws on any other text.\<close>

definition fx_parse :: "string \<Rightarrow> json option" where
  "fx_parse s =
     (if s = type_module_text then Some (JObj [(''type'', JStr ''module'')])
      else if s = ''{}'' then Some (JObj [])
      else None)"

text \<open>
  A package \<open>/p\<close> of type \<open>module\<close> with a nested directory \<open>/p/sub\<close> whose own
  manifest is \<open>{}\<close>.
\<close>

definition fx_nested :: Vfs where
  "fx_nested = \<lparr>
     readFile = (\<lambda>p. if p = ''/p/package.json'' then Some type_module_text
                     else if p = ''/p/sub/package.json'' then Some ''{}'' else None),
     readDir = (\<lambda>p. []),
     isPathDir = (\<lambda>p. p = ''/p'' \<or> p = ''/p/sub''),
     isPathExist = (\<lambda>p. p = ''/p/package.json'' \<or> p = ''/p/sub/package.json''),
     pathJoin = posix_join,
     pathRelative = (\<lambda>a b. b),
     getDirName = posix_dirname,
     getExtName = (\<lambda>p. '''') \<rparr>"

text \<open>
  A file tree given by its directories and its files with their contents, with POSIX
  paths.
\<close>

definition posix_basename :: "string \<Rightarrow> string" where
  "posix_basename p = rev (takeWhile (\<lambda>c. c \<noteq> CHR ''/'') (rev p))"

definition posix_extname :: "string \<Rightarrow> string" where
  "posix_extname p =
     (if CHR ''.'' \<in> set (drop 1 (posix_basename p))
      then CHR ''.'' # rev (takeWhile (\<lambda>c. c \<noteq> CHR ''.'') (rev (posix_basename p)))
      else [])"

definition posix_relative :: "string \<Rightarrow> string \<Rightarrow> string" where
  "posix_relative a b = (if startsWith b (a @ ''/'') then drop (length a + 1) b else b)"

definition posix_join2 :: "string \<Rightarrow> string \<Rightarrow> string" where
  "posix_join2 a b = posix_join a (if startsWith b ''./'' then drop 2 b else b)"

definition fx_tree :: "string list \<Rightarrow> (string \<times> string) list \<Rightarrow> Vfs" where
  "fx_tree dirs files = \<lparr>
     readFile = map_of files,
     readDir = (\<lambda>d. map posix_basename
                       (filter (\<lambda>p. p \<noteq> d \<and> posix_dirname p = d) (dirs @ map fst files))),
     isPathDir = (\<lambda>p. p \<in> set dirs),
     isPathExist = (\<lambda>p. p \<in> set dirs \<or> p \<in> set (map fst files)),
     pathJoin = posix_join2,
     pathRelative = posix_relative,
     getDirName = posix_dirname,
     getExtName = posix_extname \<rparr>"

text \<open>
  A pass over the package \<open>/p\<close> with the tables of \<open>constants.js\<close>.  Of the functions
  and objects of the language, none has a member of one of the names that the examples ask
  for: reading one gives \<open>undefined\<close>, reading further throws.
\<close>

definition fx_builtin :: "json \<Rightarrow> string \<Rightarrow> string list \<Rightarrow> jsval option outcome" where
  "fx_builtin v p ps = (case ps of [q] \<Rightarrow> Done None | _ \<Rightarrow> Thrown)"

definition fx_ctx :: "Vfs \<Rightarrow> json \<Rightarrow> ctx" where
  "fx_ctx v pkg = \<lparr>
     pkgDir = ''/p'',
     vfs = v,
     packedFiles = None,
     rootPkg = pkg,
     parseJSON = fx_parse,
     lintableExts = [''.js'', ''.mjs'', ''.cjs''],
     invalidJsxExts = [''.mjsx'', ''.cjsx'', ''.mtsx'', ''.ctsx''],
     browserishConditions = [''browser'', ''worker''],
     builtinWalk = fx_builtin \<rparr>"

text \<open>
  A package whose directory \<open>dist/a\<close> holds \<open>a.js\<close> and \<open>b.js\<close>, for the glob
  \<open>/p/dist/*/*.js\<close>.
\<close>

definition fx_glob :: Vfs where
  "fx_glob = fx_tree [''/'', ''/p'', ''/p/dist'', ''/p/dist/a'']
     [(''/p/package.json'', ''{}''),
      (''/p/dist/a/a.js'', ''export default 1''),
      (''/p/dist/a/b.js'', ''export default 2'')]"

text \<open>
  A CommonJS package \<open>/p\<close>: \<open>index.js\<close> holds both kinds of markers, \<open>esm.js\<close> is a
  module, \<open>cli.js\<close> has neither kind.
\<close>

definition fx_plain :: Vfs where
  "fx_plain = fx_tree [''/'', ''/p'']
     [(''/p/package.json'', ''{}''),
      (''/p/index.js'', ''module.exports = 1; export default 1''),
      (''/p/esm.js'', ''export default 1''),
      (''/p/cli.js'', ''#!/usr/bin/env node'')]"

definition fx_plain_ctx :: ctx where
  "fx_plain_ctx = fx_ctx fx_plain (JObj [(''main'', JStr ''./index.js''), (''bin'', JStr ''./cli.js'')])"

text \<open>A package \<open>/p\<close> that holds its manifest only.\<close>

definition fx_empty :: Vfs where
  "fx_empty = fx_tree [''/'', ''/p''] [(''/p/package.json'', ''{}'')]"



text \<open>\<open>imports: {"#dep/": "some-pkg/"}\<close>\<close>

definition fx_imports_ctx :: ctx where
  "fx_imports_ctx = fx_ctx fx_empty (JObj [(''imports'', JObj [(''#dep/'', JStr ''some-pkg/'')])])"

text \<open>
  A package whose directory \<open>sub\<close> holds the module \<open>a.js\<close>, with
  \<open>exports: {"./sub/": "./sub/"}\<close>; and the same with \<open>browser: null\<close>.
\<close>

definition fx_sub :: Vfs where
  "fx_sub = fx_tree [''/'', ''/p'', ''/p/sub'']
     [(''/p/package.json'', ''{}''), (''/p/sub/a.js'', ''export default 1'')]"


definition fx_sub_null_ctx :: ctx where
  "fx_sub_null_ctx =
     fx_ctx fx_sub (JObj [(''exports'', JObj [(''./sub/'', JStr ''./sub/'')]), (''browser'', JNull)])"

text \<open>
  A CommonJS package with the declaration files \<open>a.d.mts\<close>, \<open>b.d.cts\<close> and
  \<open>b.d.mts\<close> next to \<open>a.js\<close>, \<open>b.cjs\<close> and \<open>b.mjs\<close>.  One manifest exports \<open>a\<close>
  under \<open>import\<close>, the next two \<open>b\<close> under \<open>require\<close>, with \<open>b.d.cts\<close> and with
  \<open>b.d.mts\<close>; the last one publishes \<open>b\<close> in both formats with \<open>b.d.mts\<close> for both.
\<close>

definition fx_types :: Vfs where
  "fx_types = fx_tree [''/'', ''/p'']
     [(''/p/package.json'', ''{}''),
      (''/p/a.d.mts'', ''export declare const a: number''),
      (''/p/a.js'', ''exports.a = 1''),
      (''/p/b.d.cts'', ''export declare const b: number''),
      (''/p/b.d.mts'', ''export declare const b: number''),
      (''/p/b.cjs'', ''exports.b = 1''),
      (''/p/b.mjs'', ''export const b = 1'')]"

definition fx_types_ctx :: ctx where
  "fx_types_ctx = fx_ctx fx_types
     (JObj [(''types'', JStr ''./a.d.mts''),
            (''exports'', JObj [(''.'', JObj [(''types'', JStr ''./a.d.mts''), (''import'', JStr ''./a.js'')])])])"

definition fx_types_cjs_ctx :: ctx where
  "fx_types_cjs_ctx = fx_ctx fx_types
     (JObj [(''types'', JStr ''./b.d.cts''),
            (''exports'', JObj [(''.'', JObj [(''types'', JStr ''./b.d.cts''), (''require'', JStr ''./b.cjs'')])])])"

definition fx_types_mts_ctx :: ctx where
  "fx_types_mts_ctx = fx_ctx fx_types
     (JObj [(''types'', JStr ''./b.d.mts''),
            (''exports'', JObj [(''.'', JObj [(''types'', JStr ''./b.d.mts''), (''require'', JStr ''./b.cjs'')])])])"

definition fx_types_dual_ctx :: ctx where
  "fx_types_dual_ctx = fx_ctx fx_types
     (JObj [(''types'', JStr ''./b.d.mts''),
            (''exports'',
             JObj [(''.'', JObj [(''types'', JStr ''./b.d.mts''), (''import'', JStr ''./b.mjs''),
                                 (''require'', JStr ''./b.cjs'')])])])"

section \<open>Properties\<close>

subsection \<open>The expected format of a file path\<close>

lemma nearestPkgFrom_chain:
  "(getDirName v ^^ Suc n) d = (getDirName v ^^ n) d \<Longrightarrow>
   nearestPkgFrom JSON_parse v d = Some (firstPkg JSON_parse v (ancestorDirs v n d))"
proof (induction n arbitrary: d)
  case 0
  then show ?case
    by (subst nearestPkgFrom.simps) (simp split: option.splits)
next
  case (Suc n)
  have fp: "(getDirName v ^^ Suc n) (getDirName v d) = (getDirName v ^^ n) (getDirName v d)"
    using Suc.prems by (simp add: funpow_swap1)
  note IH = Suc.IH [OF fp]
  show ?case
  proof (cases "tryPkg JSON_parse v d")
    case (Some pkg)
    then show ?thesis by (subst nearestPkgFrom.simps) simp
  next
    case None
    show ?thesis
    proof (cases "getDirName v d = d")
      case True
      have "nearestPkgFrom JSON_parse v d = Some None"
        using None True by (subst nearestPkgFrom.simps) simp
      with IH True have "firstPkg JSON_parse v (ancestorDirs v n d) = None" by simp
      with None True \<open>nearestPkgFrom JSON_parse v d = Some None\<close> show ?thesis by simp
    next
      case False
      with None IH show ?thesis by (subst nearestPkgFrom.simps) simp
    qed
  qed
qed

text \<open>
  C1, as amended.  A path that ends in \<open>.mjs\<close> or \<open>.cjs\<close>, after a trailing
  \<open>.native.js\<close> has been cut off, gets its format from the extension alone, whatever the
  file system holds.  Any other path gets the format of the nearest ancestor directory whose
  \<open>package.json\<close> exists, can be read and parses, whether or not that manifest has a
  \<open>type\<close> field: ESM exactly when its \<open>type\<close> is \<open>"module"\<close>, CJS otherwise, also
  when no directory up to the root has such a manifest.  The walk returns whenever
  \<open>getDirName\<close> reaches a fixed point.
\<close>

theorem getFilePathFormat_nearest_manifest:
  "(endsWith (stripNative filePath) ''.mjs'' \<longrightarrow>
      getFilePathFormat JSON_parse v filePath = Some ESM) \<and>
   (\<not> endsWith (stripNative filePath) ''.mjs'' \<and> endsWith (stripNative filePath) ''.cjs'' \<longrightarrow>
      getFilePathFormat JSON_parse v filePath = Some CJS) \<and>
   (\<not> endsWith (stripNative filePath) ''.mjs'' \<and> \<not> endsWith (stripNative filePath) ''.cjs'' \<and>
    (getDirName v ^^ Suc n) (getDirName v (stripNative filePath)) =
      (getDirName v ^^ n) (getDirName v (stripNative filePath)) \<longrightarrow>
      getFilePathFormat JSON_parse v filePath =
        Some (case firstPkg JSON_parse v (ancestorDirs v n (getDirName v (stripNative filePath))) of
                None \<Rightarrow> CJS
              | Some pkg \<Rightarrow> if js_get pkg ''type'' = Some (JStr ''module'') then ESM else CJS))"
proof (intro conjI impI)
  assume "endsWith (stripNative filePath) ''.mjs''"
  then show "getFilePathFormat JSON_parse v filePath = Some ESM"
    by (simp add: getFilePathFormat_def)
next
  assume "\<not> endsWith (stripNative filePath) ''.mjs'' \<and> endsWith (stripNative filePath) ''.cjs''"
  then show "getFilePathFormat JSON_parse v filePath = Some CJS"
    by (simp add: getFilePathFormat_def)
next
  let ?d = "getDirName v (stripNative filePath)"
  assume a: "\<not> endsWith (stripNative filePath) ''.mjs'' \<and>
    \<not> endsWith (stripNative filePath) ''.cjs'' \<and> (getDirName v ^^ Suc n) ?d = (getDirName v ^^ n) ?d"
  then have "nearestPkgFrom JSON_parse v ?d = Some (firstPkg JSON_parse v (ancestorDirs v n ?d))"
    by (intro nearestPkgFrom_chain) blast
  with a show "getFilePathFormat JSON_parse v filePath =
        Some (case firstPkg JSON_parse v (ancestorDirs v n ?d) of
                None \<Rightarrow> CJS
              | Some pkg \<Rightarrow> if js_get pkg ''type'' = Some (JStr ''module'') then ESM else CJS)"
    by (simp add: getFilePathFormat_def getNearestPkg_def formatOfPkg_def)
qed

theorem getFilePathFormat_nearest_manifest_witness:
  "getFilePathFormat fx_parse fx_nested ''/p/sub/a.native.js.mjs'' = Some ESM \<and>
   getFilePathFormat fx_parse fx_nested ''/p/sub/a.cjs.native.js'' = Some CJS \<and>
   getFilePathFormat fx_parse fx_nested ''/p/a.js'' = Some ESM"
proof -
  have 1: "endsWith (stripNative ''/p/sub/a.native.js.mjs'') ''.mjs''" by code_simp
  have 2: "\<not> endsWith (stripNative ''/p/sub/a.cjs.native.js'') ''.mjs'' \<and>
           endsWith (stripNative ''/p/sub/a.cjs.native.js'') ''.cjs''" by code_simp
  have 3: "\<not> endsWith (stripNative ''/p/a.js'') ''.mjs'' \<and>
           \<not> endsWith (stripNative ''/p/a.js'') ''.cjs'' \<and>
           (getDirName fx_nested ^^ Suc 1) (getDirName fx_nested (stripNative ''/p/a.js'')) =
           (getDirName fx_nested ^^ 1) (getDirName fx_nested (stripNative ''/p/a.js''))" by code_simp
  have 4: "(case firstPkg fx_parse fx_nested (ancestorDirs fx_nested 1 (getDirName fx_nested (stripNative ''/p/a.js''))) of
                None \<Rightarrow> CJS
              | Some pkg \<Rightarrow> if js_get pkg ''type'' = Some (JStr ''module'') then ESM else CJS) = ESM"
    by code_simp
  from getFilePathFormat_nearest_manifest [of "''/p/sub/a.native.js.mjs''" fx_parse fx_nested 0] 1
       getFilePathFormat_nearest_manifest [of "''/p/sub/a.cjs.native.js''" fx_parse fx_nested 0] 2
       getFilePathFormat_nearest_manifest [of "''/p/a.js''" fx_parse fx_nested 1] 3 4
  show ?thesis by presburger
qed

text \<open>
  C1 as stated fails: \<open>/p/sub/a.js\<close> lies below \<open>/p/sub/package.json\<close>, which has no
  \<open>type\<close> field, and \<open>/p/package.json\<close>, of type \<open>module\<close>.  The nearest manifest
  with a \<open>type\<close> field says \<open>module\<close>, and the linter answers CJS: the walk stops at the
  nearest manifest.
\<close>

theorem expected_format_type_field_counterexample:
  "getFilePathFormat fx_parse fx_nested ''/p/sub/a.js'' = Some CJS \<and>
   tryPkg fx_parse fx_nested ''/p/sub'' = Some (JObj []) \<and>
   ancestorDirs fx_nested 2 (getDirName fx_nested ''/p/sub/a.js'') = [''/p/sub'', ''/p'', ''/''] \<and>
   nearestTypeField fx_parse fx_nested [''/p/sub'', ''/p'', ''/''] = Some (JStr ''module'')"
  by code_simp

subsection \<open>The format of a source text\<close>

text \<open>
  C2.  \<open>getCodeFormat\<close> classifies the text left after the comments have been cut out:
  \<open>mixed\<close> exactly when both the module pattern and the CommonJS pattern match it,
  \<open>ESM\<close> exactly when only the module pattern matches, \<open>CJS\<close> exactly when only the
  CommonJS pattern matches, and \<open>unknown\<close> exactly when neither does.
\<close>

theorem getCodeFormat_classifies:
  "(getCodeFormat code = Mixed) =
     (re_test True ESM_CONTENT_RE (stripComments code) \<and>
      re_test True CJS_CONTENT_RE (stripComments code)) \<and>
   (getCodeFormat code = ESM) =
     (re_test True ESM_CONTENT_RE (stripComments code) \<and>
      \<not> re_test True CJS_CONTENT_RE (stripComments code)) \<and>
   (getCodeFormat code = CJS) =
     (\<not> re_test True ESM_CONTENT_RE (stripComments code) \<and>
      re_test True CJS_CONTENT_RE (stripComments code)) \<and>
   (getCodeFormat code = Unknown) =
     (\<not> re_test True ESM_CONTENT_RE (stripComments code) \<and>
      \<not> re_test True CJS_CONTENT_RE (stripComments code))"
  by (simp add: getCodeFormat_def isCodeEsm_def isCodeCjs_def)

text \<open>
  The four outcomes on concrete texts.  In the second and third text one of the markers
  stands in a comment only, so it does not count.
\<close>

theorem getCodeFormat_classifies_witness:
  "getCodeFormat ''module.exports = 1; export default 1'' = Mixed \<and>
   getCodeFormat ''/* module.exports = 1 */ export default 1'' = ESM \<and>
   getCodeFormat ''const a = require(1) // export default a'' = CJS \<and>
   getCodeFormat ''console.log(1)'' = Unknown"
proof -
  have 1: "re_test True ESM_CONTENT_RE (stripComments ''module.exports = 1; export default 1'') \<and>
           re_test True CJS_CONTENT_RE (stripComments ''module.exports = 1; export default 1'')"
    by code_simp
  have 2: "re_test True ESM_CONTENT_RE (stripComments ''/* module.exports = 1 */ export default 1'') \<and>
           \<not> re_test True CJS_CONTENT_RE (stripComments ''/* module.exports = 1 */ export default 1'')"
    by code_simp
  have 3: "\<not> re_test True ESM_CONTENT_RE (stripComments ''const a = require(1) // export default a'') \<and>
           re_test True CJS_CONTENT_RE (stripComments ''const a = require(1) // export default a'')"
    by code_simp
  have 4: "\<not> re_test True ESM_CONTENT_RE (stripComments ''console.log(1)'') \<and>
           \<not> re_test True CJS_CONTENT_RE (stripComments ''console.log(1)'')"
    by code_simp
  from 1 2 3 4
    getCodeFormat_classifies [of "''module.exports = 1; export default 1''"]
    getCodeFormat_classifies [of "''/* module.exports = 1 */ export default 1''"]
    getCodeFormat_classifies [of "''const a = require(1) // export default a''"]
    getCodeFormat_classifies [of "''console.log(1)''"]
  show ?thesis by blast
qed

subsection \<open>The crawl of a condition tree\<close>

lemma msgs_of_append [simp]: "msgs_of (xs @ ys) = msgs_of xs @ msgs_of ys"
  by (induction xs rule: msgs_of.induct) auto

lemma msgs_of_map_Msg [simp]: "msgs_of (map Msg ms) = ms"
  by (induction ms) auto

lemma typesShouldBeFirst_ofMap:
  "m \<in> set (typesShouldBeFirst kvs Q i) \<Longrightarrow>
     m_code m = EXPORTS_TYPES_SHOULD_BE_FIRST \<and> m_path m = Q @ [''types'']"
  by (auto simp: typesShouldBeFirst_def split: if_splits)

lemma moduleShouldPrecedeRequire_ofMap:
  "m \<in> set (moduleShouldPrecedeRequire kvs Q i) \<Longrightarrow> isPrecedence m \<and> m_path m = Q @ [''module'']"
  by (auto simp: moduleShouldPrecedeRequire_def isPrecedence_def split: if_splits)

lemma defaultShouldBeLast_ofMap:
  "m \<in> set (defaultShouldBeLast kvs Q i) \<Longrightarrow> isDefaultLast m \<and> m_path m = Q @ [''default'']"
  by (auto simp: defaultShouldBeLast_def isDefaultLast_def split: if_splits)

text \<open>Every diagnostic about keys that a crawl reports lies below the path of the crawl.\<close>

lemma crawl_deeper:
  shows "crawlExportsOrImports val Q i a = Done evs \<Longrightarrow>
           \<forall>m \<in> set (msgs_of evs). isKeyDiagnostic (m_code m) \<longrightarrow> length Q < length (m_path m)"
    and "crawlElems xs idx Q i a = Done evs \<Longrightarrow>
           \<forall>m \<in> set (msgs_of evs). isKeyDiagnostic (m_code m) \<longrightarrow> length Q < length (m_path m)"
    and "crawlEntries kvs Q i icp a = Done evs \<Longrightarrow>
           \<forall>m \<in> set (msgs_of evs). isKeyDiagnostic (m_code m) \<longrightarrow> length Q < length (m_path m)"
proof (induction val Q i a and xs idx Q i a and kvs Q i icp a arbitrary: evs and evs and evs
       rule: crawlExportsOrImports_crawlElems_crawlEntries.induct)
  case (1 s currentPath isImports isAfterNodeCondition)
  then show ?case by auto
next
  case (2 xs currentPath isImports isAfterNodeCondition)
  from "2.prems" obtain evs' where
    sub: "crawlElems xs 0 currentPath isImports isAfterNodeCondition = Done evs'"
    and evs: "evs = Msg \<lparr>m_code = (if isImports then IMPORTS_FALLBACK_ARRAY_USE
                                 else EXPORTS_FALLBACK_ARRAY_USE),
                      m_args = [], m_path = currentPath, m_type = Warning\<rparr> # evs'"
    by (auto split: outcome.splits)
  from "2.IH" [OF sub] evs show ?case by (auto simp: isKeyDiagnostic_def)
next
  case (3 currentPath isImports isAfterNodeCondition)
  then show ?case by auto
next
  case (4 b currentPath isImports isAfterNodeCondition)
  then show ?case by (auto split: if_splits)
next
  case (5 n currentPath isImports isAfterNodeCondition)
  then show ?case by (auto split: if_splits)
next
  case (6 kvs currentPath isImports isAfterNodeCondition)
  from "6.prems" obtain evs' where
    sub: "crawlEntries kvs currentPath isImports
            (isImports \<and> currentPath \<noteq> [] \<and> last currentPath = ''imports'')
            isAfterNodeCondition = Done evs'"
    and evs: "evs = map Msg (typesShouldBeFirst kvs currentPath isImports @
                             moduleShouldPrecedeRequire kvs currentPath isImports @
                             defaultShouldBeLast kvs currentPath isImports) @ evs'"
    by (auto split: outcome.splits)
  from "6.IH" [OF sub] evs show ?case
    by (auto dest: typesShouldBeFirst_ofMap moduleShouldPrecedeRequire_ofMap
        defaultShouldBeLast_ofMap)
next
  case (7 i currentPath isImports isAfterNodeCondition)
  then show ?case by auto
next
  case (8 x xs i currentPath isImports isAfterNodeCondition)
  from "8.prems" obtain e1 e2 where
    c1: "crawlExportsOrImports x (currentPath @ [show_nat i]) isImports isAfterNodeCondition = Done e1"
    and c2: "crawlElems xs (Suc i) currentPath isImports isAfterNodeCondition = Done e2"
    and evs: "evs = e1 @ e2"
    by (auto split: outcome.splits)
  show ?case
  proof (intro ballI impI)
    fix m
    assume m: "m \<in> set (msgs_of evs)" and k: "isKeyDiagnostic (m_code m)"
    from m evs consider "m \<in> set (msgs_of e1)" | "m \<in> set (msgs_of e2)" by auto
    then show "length currentPath < length (m_path m)"
    proof cases
      case 1
      with "8.IH"(1) [OF c1] k show ?thesis by fastforce
    next
      case 2
      with "8.IH"(2) [OF c1 c2] k show ?thesis by blast
    qed
  qed
next
  case (9 currentPath isImports isCurrentPathImports isKeyAfterNodeCondition)
  then show ?case by auto
next
  case (10 key val kvs currentPath isImports isCurrentPathImports isKeyAfterNodeCondition)
  from "10.prems" obtain e1 e2 where
    c1: "crawlExportsOrImports val (currentPath @ [key]) isImports isKeyAfterNodeCondition = Done e1"
    and c2: "crawlEntries kvs currentPath isImports isCurrentPathImports
               (isKeyAfterNodeCondition \<or> key = ''node'') = Done e2"
    and evs: "evs = (if isCurrentPathImports \<and> \<not> startsWith key ''#''
                     then [Msg (importsKeyInvalid key currentPath)] else []) @ e1 @ e2"
    by (auto split: outcome.splits)
  show ?case
  proof (intro ballI impI)
    fix m
    assume m: "m \<in> set (msgs_of evs)" and k: "isKeyDiagnostic (m_code m)"
    from m evs consider "m = importsKeyInvalid key currentPath"
      | "m \<in> set (msgs_of e1)" | "m \<in> set (msgs_of e2)"
      by (auto split: if_splits)
    then show "length currentPath < length (m_path m)"
    proof cases
      case 1
      then show ?thesis by (simp add: importsKeyInvalid_def)
    next
      case 2
      with "10.IH"(1) [OF c1] k show ?thesis by fastforce
    next
      case 3
      with "10.IH"(2) [OF c1 c2] k show ?thesis by blast
    qed
  qed
qed

text \<open>A crawl of a condition tree returns.\<close>

lemma crawl_returns:
  shows "condTree val \<Longrightarrow> \<exists>evs. crawlExportsOrImports val Q i a = Done evs"
    and "condTrees xs \<Longrightarrow> \<exists>evs. crawlElems xs idx Q i a = Done evs"
    and "condEntries kvs \<Longrightarrow> \<exists>evs. crawlEntries kvs Q i icp a = Done evs"
proof (induction val Q i a and xs idx Q i a and kvs Q i icp a
       rule: crawlExportsOrImports_crawlElems_crawlEntries.induct)
  case (2 xs currentPath isImports isAfterNodeCondition)
  from "2.prems" have "condTrees xs" by simp
  from "2.IH" [OF this] obtain evs' where
    "crawlElems xs 0 currentPath isImports isAfterNodeCondition = Done evs'" by blast
  then show ?case by simp
next
  case (6 kvs currentPath isImports isAfterNodeCondition)
  from "6.prems" have "condEntries kvs" by simp
  from "6.IH" [OF this] obtain evs' where
    "crawlEntries kvs currentPath isImports
       (isImports \<and> currentPath \<noteq> [] \<and> last currentPath = ''imports'')
       isAfterNodeCondition = Done evs'" by blast
  then show ?case by simp
next
  case (8 x xs i currentPath isImports isAfterNodeCondition)
  from "8.prems" have x: "condTree x" and xs: "condTrees xs" by auto
  from "8.IH"(1) [OF x] obtain e1 where
    c1: "crawlExportsOrImports x (currentPath @ [show_nat i]) isImports isAfterNodeCondition = Done e1"
    by blast
  from "8.IH"(2) [OF c1 xs] obtain e2 where
    "crawlElems xs (Suc i) currentPath isImports isAfterNodeCondition = Done e2" by blast
  with c1 show ?case by simp
next
  case (10 key val kvs currentPath isImports isCurrentPathImports isKeyAfterNodeCondition)
  from "10.prems" have v: "condTree val" and kvs: "condEntries kvs" by auto
  from "10.IH"(1) [OF v] obtain e1 where
    c1: "crawlExportsOrImports val (currentPath @ [key]) isImports isKeyAfterNodeCondition = Done e1"
    by blast
  from "10.IH"(2) [OF c1 kvs] obtain e2 where
    "crawlEntries kvs currentPath isImports isCurrentPathImports
       (isKeyAfterNodeCondition \<or> key = ''node'') = Done e2" by blast
  with c1 show ?case by simp
qed auto

text \<open>
  The diagnostics that the loop over the keys of a map reports about the keys of that map:
  one for each key that does not start with \<open>#\<close>, when the keys are checked at all.
\<close>

lemma crawlEntries_ofMap:
  "crawlEntries kvs Q i icp a = Done evs \<Longrightarrow>
   filter (ofMap Q) (msgs_of evs) =
     (if icp then map (\<lambda>key. importsKeyInvalid key Q)
                   (filter (\<lambda>key. \<not> startsWith key ''#'') (map fst kvs))
      else [])"
proof (induction kvs arbitrary: a evs)
  case Nil
  then show ?case by auto
next
  case (Cons kv kvs)
  obtain key val where kv: "kv = (key, val)" by (cases kv)
  from Cons.prems kv obtain e1 e2 where
    c1: "crawlExportsOrImports val (Q @ [key]) i a = Done e1"
    and c2: "crawlEntries kvs Q i icp (a \<or> key = ''node'') = Done e2"
    and evs: "evs = (if icp \<and> \<not> startsWith key ''#''
                     then [Msg (importsKeyInvalid key Q)] else []) @ e1 @ e2"
    by (auto split: outcome.splits)
  have "filter (ofMap Q) (msgs_of e1) = []"
    using crawl_deeper(1) [OF c1] by (auto simp: filter_empty_conv ofMap_def)
  moreover have "ofMap Q (importsKeyInvalid key Q)"
    by (simp add: ofMap_def importsKeyInvalid_def isKeyDiagnostic_def)
  ultimately show ?case
    using Cons.IH [OF c2] evs kv by auto
qed

text \<open>The diagnostics that the crawl of a map reports about the keys of that map.\<close>

lemma crawl_map_ofMap:
  assumes "crawlExportsOrImports (JObj kvs) Q i a = Done evs"
  shows "filter (ofMap Q) (msgs_of evs) =
           typesShouldBeFirst kvs Q i @ moduleShouldPrecedeRequire kvs Q i @
           defaultShouldBeLast kvs Q i @
           (if i \<and> Q \<noteq> [] \<and> last Q = ''imports''
            then map (\<lambda>key. importsKeyInvalid key Q)
                   (filter (\<lambda>key. \<not> startsWith key ''#'') (map fst kvs))
            else [])"
proof -
  from assms obtain evs' where
    sub: "crawlEntries kvs Q i (i \<and> Q \<noteq> [] \<and> last Q = ''imports'') a = Done evs'"
    and evs: "evs = map Msg (typesShouldBeFirst kvs Q i @ moduleShouldPrecedeRequire kvs Q i @
                             defaultShouldBeLast kvs Q i) @ evs'"
    by (auto split: outcome.splits)
  have 1: "filter (ofMap Q) (typesShouldBeFirst kvs Q i) = typesShouldBeFirst kvs Q i"
    by (auto simp: typesShouldBeFirst_def ofMap_def isKeyDiagnostic_def)
  have 2: "filter (ofMap Q) (moduleShouldPrecedeRequire kvs Q i) = moduleShouldPrecedeRequire kvs Q i"
    by (auto simp: moduleShouldPrecedeRequire_def ofMap_def isKeyDiagnostic_def)
  have 3: "filter (ofMap Q) (defaultShouldBeLast kvs Q i) = defaultShouldBeLast kvs Q i"
    by (auto simp: defaultShouldBeLast_def ofMap_def isKeyDiagnostic_def)
  from crawlEntries_ofMap [OF sub] evs 1 2 3 show ?thesis by simp
qed



lemma filter_keyInvalid_parts:
  "filter isKeyInvalid (typesShouldBeFirst kvs Q i) = []"
  "filter isKeyInvalid (moduleShouldPrecedeRequire kvs Q i) = []"
  "filter isKeyInvalid (defaultShouldBeLast kvs Q i) = []"
  "filter isKeyInvalid (map (\<lambda>key. importsKeyInvalid key Q) ks) = map (\<lambda>key. importsKeyInvalid key Q) ks"
  by (auto simp: typesShouldBeFirst_def moduleShouldPrecedeRequire_def defaultShouldBeLast_def
      importsKeyInvalid_def isKeyInvalid_def filter_empty_conv)

lemma filter_both: "filter (\<lambda>m. P m \<and> R m) xs = filter R (filter P xs)"
  by (induction xs) auto

text \<open>The events of the crawl of a value are among the events of the crawl of the map or array that holds it.\<close>

lemma crawlEntries_includes:
  "crawlEntries kvs Q i icp a = Done evs \<Longrightarrow> (key, val) \<in> set kvs \<Longrightarrow>
   \<exists>a' evs'. crawlExportsOrImports val (Q @ [key]) i a' = Done evs' \<and> set evs' \<subseteq> set evs"
proof (induction kvs arbitrary: a evs)
  case Nil
  then show ?case by simp
next
  case (Cons kv kvs)
  obtain k v where kv: "kv = (k, v)" by (cases kv)
  from Cons.prems(1) kv obtain e1 e2 where
    c1: "crawlExportsOrImports v (Q @ [k]) i a = Done e1"
    and c2: "crawlEntries kvs Q i icp (a \<or> k = ''node'') = Done e2"
    and evs: "evs = (if icp \<and> \<not> startsWith k ''#''
                     then [Msg (importsKeyInvalid k Q)] else []) @ e1 @ e2"
    by (auto split: outcome.splits)
  show ?case
  proof (cases "(key, val) = (k, v)")
    case True
    with c1 evs show ?thesis by auto
  next
    case False
    with Cons.prems(2) kv have "(key, val) \<in> set kvs" by auto
    from Cons.IH [OF c2 this] obtain a' evs' where
      "crawlExportsOrImports val (Q @ [key]) i a' = Done evs'" and "set evs' \<subseteq> set e2" by blast
    with evs show ?thesis by auto
  qed
qed

lemma crawl_map_includes:
  assumes "crawlExportsOrImports (JObj kvs) Q i a = Done evs" and "(key, val) \<in> set kvs"
  shows "\<exists>a' evs'. crawlExportsOrImports val (Q @ [key]) i a' = Done evs' \<and> set evs' \<subseteq> set evs"
proof -
  from assms(1) obtain evs0 where
    sub: "crawlEntries kvs Q i (i \<and> Q \<noteq> [] \<and> last Q = ''imports'') a = Done evs0"
    and "evs = map Msg (typesShouldBeFirst kvs Q i @ moduleShouldPrecedeRequire kvs Q i @
                        defaultShouldBeLast kvs Q i) @ evs0"
    by (auto split: outcome.splits)
  then have evs: "set evs0 \<subseteq> set evs" by auto
  from crawlEntries_includes [OF sub assms(2)] evs show ?thesis by blast
qed

lemma crawlElems_includes:
  "crawlElems xs idx Q i a = Done evs \<Longrightarrow> n < length xs \<Longrightarrow>
   \<exists>evs'. crawlExportsOrImports (xs ! n) (Q @ [show_nat (idx + n)]) i a = Done evs' \<and>
          set evs' \<subseteq> set evs"
proof (induction xs arbitrary: idx n evs)
  case Nil
  then show ?case by simp
next
  case (Cons x xs)
  from Cons.prems(1) obtain e1 e2 where
    c1: "crawlExportsOrImports x (Q @ [show_nat idx]) i a = Done e1"
    and c2: "crawlElems xs (Suc idx) Q i a = Done e2"
    and evs: "evs = e1 @ e2"
    by (auto split: outcome.splits)
  show ?case
  proof (cases n)
    case 0
    with c1 evs show ?thesis by auto
  next
    case (Suc m)
    with Cons.prems(2) have "m < length xs" by simp
    from Cons.IH [OF c2 this] obtain evs' where
      "crawlExportsOrImports (xs ! m) (Q @ [show_nat (Suc idx + m)]) i a = Done evs'"
      and "set evs' \<subseteq> set e2" by blast
    with Suc evs show ?thesis by auto
  qed
qed

lemma crawl_array_includes:
  assumes "crawlExportsOrImports (JArr xs) Q i a = Done evs" and "n < length xs"
  shows "\<exists>evs'. crawlExportsOrImports (xs ! n) (Q @ [show_nat n]) i a = Done evs' \<and>
               set evs' \<subseteq> set evs"
proof -
  from assms(1) obtain evs0 where
    sub: "crawlElems xs 0 Q i a = Done evs0"
    and "evs = Msg \<lparr>m_code = (if i then IMPORTS_FALLBACK_ARRAY_USE else EXPORTS_FALLBACK_ARRAY_USE),
                      m_args = [], m_path = Q, m_type = Warning\<rparr> # evs0"
    by (auto split: outcome.splits)
  then have evs: "set evs0 \<subseteq> set evs" by auto
  from crawlElems_includes [OF sub assms(2)] evs show ?thesis by auto
qed



subsection \<open>The key \<open>default\<close>\<close>















text \<open>
  C6, as amended.  In an \<open>imports\<close> context, take the \<open>imports\<close> map itself: the map at
  \<open>imports\<close> or at \<open>publishConfig.imports\<close>.  Every key of it that does not start with
  \<open>#\<close> gets one \<open>IMPORTS_KEY_INVALID\<close> diagnostic at the path of the map extended by
  the key, which suggests \<open>#\<close> followed by the key without its leading slashes, and a key
  that starts with \<open>#\<close> gets none.  Of a map whose path does not end in \<open>imports\<close>, no
  key gets one.
\<close>

theorem imports_key_invalid:
  assumes "condEntries kvs"
  shows "\<exists>evs. crawlExportsOrImports (JObj kvs) currentPath True isAfterNodeCondition = Done evs \<and>
           (currentPath = [''imports''] \<or> currentPath = [''publishConfig'', ''imports''] \<longrightarrow>
              filter (\<lambda>m. ofMap currentPath m \<and> isKeyInvalid m) (msgs_of evs) =
                map (\<lambda>key. \<lparr>m_code = IMPORTS_KEY_INVALID,
                              m_args = [(''suggestKey'',
                                         AStr (''#'' @ dropWhile (\<lambda>c. c = CHR ''/'') key))],
                              m_path = currentPath @ [key], m_type = Error\<rparr>)
                  (filter (\<lambda>key. \<not> startsWith key ''#'') (map fst kvs))) \<and>
           (currentPath = [] \<or> last currentPath \<noteq> ''imports'' \<longrightarrow>
              filter (\<lambda>m. ofMap currentPath m \<and> isKeyInvalid m) (msgs_of evs) = [])"
proof -
  from assms have "condTree (JObj kvs)" by simp
  from crawl_returns(1) [OF this] obtain evs where
    evs: "crawlExportsOrImports (JObj kvs) currentPath True isAfterNodeCondition = Done evs"
    by blast
  have "filter (\<lambda>m. ofMap currentPath m \<and> isKeyInvalid m) (msgs_of evs) =
          (if currentPath \<noteq> [] \<and> last currentPath = ''imports''
           then map (\<lambda>key. importsKeyInvalid key currentPath)
                  (filter (\<lambda>key. \<not> startsWith key ''#'') (map fst kvs))
           else [])"
    by (simp add: filter_both crawl_map_ofMap [OF evs] filter_keyInvalid_parts)
  with evs show ?thesis by (auto simp: importsKeyInvalid_def stripLeadingSlashes_def)
qed

text \<open>
  The scenario of the specification, \<open>imports: {"foo": "./a.js", "#bar": "./b.js"}\<close>, and
  the map \<open>{"node": "./a.js"}\<close> at \<open>imports["#a"]\<close>.
\<close>

theorem imports_key_invalid_witness:
  "(\<exists>evs. crawlExportsOrImports (JObj [(''foo'', JStr ''./a.js''), (''#bar'', JStr ''./b.js'')])
            [''imports''] True False = Done evs \<and>
         filter (\<lambda>m. ofMap [''imports''] m \<and> isKeyInvalid m) (msgs_of evs) =
           [\<lparr>m_code = IMPORTS_KEY_INVALID, m_args = [(''suggestKey'', AStr ''#foo'')],
             m_path = [''imports'', ''foo''], m_type = Error\<rparr>]) \<and>
   (\<exists>evs. crawlExportsOrImports (JObj [(''node'', JStr ''./a.js'')])
            [''imports'', ''#a''] True False = Done evs \<and>
         filter (\<lambda>m. ofMap [''imports'', ''#a''] m \<and> isKeyInvalid m) (msgs_of evs) = [])"
  using imports_key_invalid
          [of "[(''foo'', JStr ''./a.js''), (''#bar'', JStr ''./b.js'')]" "[''imports'']" False]
        imports_key_invalid
          [of "[(''node'', JStr ''./a.js'')]" "[''imports'', ''#a'']" False]
  by (simp add: startsWith_def)

text \<open>
  The statement above leaves one case aside: a map below a condition that is itself named
  \<open>imports\<close>.  The crawl tells the \<open>imports\<close> map by the last part of the path, and
  checks the keys of such a map as well.
\<close>

lemma imports_key_below_condition_imports:
  "crawlExportsOrImports (JObj [(''#a'', JObj [(''imports'', JObj [(''node'', JStr ''./a.js'')])])])
     [''imports''] True False =
     Done [Msg \<lparr>m_code = IMPORTS_KEY_INVALID, m_args = [(''suggestKey'', AStr ''#node'')],
                 m_path = [''imports'', ''#a'', ''imports'', ''node''], m_type = Error\<rparr>,
           Task ''./a.js'' [''imports'', ''#a'', ''imports'', ''node''] True False]"
  by code_simp

text \<open>
  C6 as stated fails: under \<open>imports: {"#a": {"node": "./a.js"}}\<close> the key \<open>node\<close> of
  the inner map does not start with \<open>#\<close>, and the crawl reports nothing; it only starts the
  task for \<open>./a.js\<close>.
\<close>

theorem imports_nested_key_counterexample:
  "crawlExportsOrImports (JObj [(''#a'', JObj [(''node'', JStr ''./a.js'')])]) [''imports''] True False =
     Done [Task ''./a.js'' [''imports'', ''#a'', ''node''] True False]"
  by (simp add: typesShouldBeFirst_def moduleShouldPrecedeRequire_def defaultShouldBeLast_def
      startsWith_def)

subsection \<open>Expanding a glob\<close>

lemma allGlobSame_all:
  "\<not> (length matched > 1 \<and> \<not> allGlobSame matched) \<Longrightarrow> list_all (\<lambda>g. g = hd matched) matched"
proof (cases matched)
  case Nil
  then show ?thesis by simp
next
  case (Cons g gs)
  assume "\<not> (length matched > 1 \<and> \<not> allGlobSame matched)"
  with Cons show ?thesis by (cases gs) (auto simp: allGlobSame_def)
qed

lemma scanFile_sound:
  assumes "f \<in> set (scanFile globStrRe exportsKey exports itemPath)"
  shows "sameCaptures globStrRe f"
proof (cases "re_groups False globStrRe (slash itemPath)")
  case None
  with assms show ?thesis by (simp add: scanFile_def)
next
  case (Some matched)
  show ?thesis
  proof (cases "length matched > 1 \<and> \<not> allGlobSame matched")
    case True
    with Some assms show ?thesis by (simp add: scanFile_def)
  next
    case False
    from assms Some have "f = itemPath"
      by (simp add: scanFile_def split: if_splits)
    with Some allGlobSame_all [OF False] show ?thesis
      unfolding sameCaptures_def by blast
  qed
qed

lemma scan_sound:
  shows "scanDir n v packed globStrRe exportsKey exports dirPath = Some found \<Longrightarrow>
           list_all (sameCaptures globStrRe) found"
    and "scanItems n v packed globStrRe exportsKey exports dirPath items = Some found' \<Longrightarrow>
           list_all (sameCaptures globStrRe) found'"
proof (induction n v packed globStrRe exportsKey exports dirPath and
         n v packed globStrRe exportsKey exports dirPath items
       arbitrary: found and found' rule: scanDir_scanItems.induct)
  case (1 v packed globStrRe exportsKey exports dirPath)
  then show ?case by simp
next
  case (2 n v packed globStrRe exportsKey exports dirPath)
  then show ?case by simp
next
  case (3 n v packed globStrRe exportsKey exports dirPath)
  then show ?case by simp
next
  case (4 n v packed globStrRe exportsKey exports dirPath item items)
  note res = "4.prems"
  show ?case
  proof (cases "isPacked packed (pathJoin v dirPath item)")
    case False
    with res "4.IH"(4) show ?thesis by simp
  next
    case isPacked: True
    show ?thesis
    proof (cases "isPathDir v (pathJoin v dirPath item)")
      case True
      with isPacked res obtain sub more where
        sub: "scanDir n v packed globStrRe exportsKey exports (pathJoin v dirPath item) = Some sub"
        and more: "scanItems n v packed globStrRe exportsKey exports dirPath items = Some more"
        and found: "found' = sub @ more"
        by (auto split: option.splits)
      from "4.IH"(1) [OF isPacked True sub] "4.IH"(2) [OF isPacked True sub more] found
      show ?thesis by simp
    next
      case False
      with isPacked res obtain more where
        more: "scanItems n v packed globStrRe exportsKey exports dirPath items = Some more"
        and found: "found' = scanFile globStrRe exportsKey exports (pathJoin v dirPath item) @ more"
        by (auto split: option.splits)
      have "list_all (sameCaptures globStrRe)
              (scanFile globStrRe exportsKey exports (pathJoin v dirPath item))"
        using scanFile_sound by (auto simp: list_all_iff)
      with "4.IH"(3) [OF isPacked False more] found show ?thesis by simp
    qed
  qed
qed

text \<open>
  C7.  Every path in the result of a glob expansion is matched by the pattern derived from
  the glob, and the texts captured for its stars are all the same: a file whose captures
  differ is skipped.
\<close>

theorem exportsGlob_captures_identical:
  assumes "exportsGlob n globStr v packed exportsKey exports = Some filePaths"
    and "f \<in> set filePaths"
  shows "\<exists>matched. re_groups False (globRegExp (slash globStr)) (slash f) = Some matched \<and>
                   list_all (\<lambda>g. g = hd matched) matched"
proof -
  from assms obtain topDir where
    "scanDir n v packed (globRegExp (slash globStr)) exportsKey exports topDir = Some filePaths"
    by (auto simp: exportsGlob_def split: option.splits if_splits)
  from scan_sound(1) [OF this] assms(2) show ?thesis
    by (auto simp: list_all_iff sameCaptures_def)
qed

text \<open>
  For \<open>/p/dist/*/*.js\<close> the file \<open>dist/a/a.js\<close> is kept, and \<open>dist/a/b.js\<close>, which
  the pattern matches with the captures \<open>a\<close> and \<open>b\<close>, is not.
\<close>

theorem exportsGlob_captures_identical_witness:
  "exportsGlob 5 ''/p/dist/*/*.js'' fx_glob None None None = Some [''/p/dist/a/a.js''] \<and>
   re_groups False (globRegExp (slash ''/p/dist/*/*.js'')) (slash ''/p/dist/a/b.js'') = Some [''a'', ''b''] \<and>
   (\<exists>matched. re_groups False (globRegExp (slash ''/p/dist/*/*.js'')) (slash ''/p/dist/a/a.js'') = Some matched \<and>
              list_all (\<lambda>g. g = hd matched) matched)"
proof -
  have 1: "exportsGlob 5 ''/p/dist/*/*.js'' fx_glob None None None = Some [''/p/dist/a/a.js'']"
    by code_simp
  have 2: "re_groups False (globRegExp (slash ''/p/dist/*/*.js'')) (slash ''/p/dist/a/b.js'') = Some [''a'', ''b'']"
    by code_simp
  have 3: "''/p/dist/a/a.js'' \<in> set [''/p/dist/a/a.js'']" by simp
  from 1 2 exportsGlob_captures_identical [OF 1 3] show ?thesis by blast
qed

subsection \<open>Files whose format is mixed or unknown\<close>

lemma isFormatMismatch_message:
  "isFormatMismatch \<lparr>m_code = code, m_args = as, m_path = p, m_type = t\<rparr> =
     (code = FILE_INVALID_FORMAT \<or> code = FILE_INVALID_EXPLICIT_FORMAT)"
  by (simp add: isFormatMismatch_def)

lemma notPublished_no_mismatch: "\<not> list_ex isFormatMismatch (notPublished c pkgPath p)"
  by (simp add: notPublished_def fileNotPublished_def isFormatMismatch_message
      split: option.splits)

lemma tryExtensions_no_mismatch: "\<not> list_ex isFormatMismatch (snd (tryExtensions c p pkgPath exts))"
  by (induction exts)
     (simp_all add: isFormatMismatch_message notPublished_no_mismatch split: option.splits)

lemma core_readFile_no_mismatch: "\<not> list_ex isFormatMismatch (snd (core_readFile c p pkgPath exts))"
  by (simp add: core_readFile_def notPublished_no_mismatch tryExtensions_no_mismatch
      split: option.splits)

lemma core_readFile_no_mismatch':
  "core_readFile c p pkgPath exts = (r, ms) \<Longrightarrow> \<not> list_ex isFormatMismatch ms"
  using core_readFile_no_mismatch [of c p pkgPath exts] by simp

lemma hasInvalidJsxExtension_no_mismatch:
  "hasInvalidJsxExtension c filePath currentPath g = (b, ms) \<Longrightarrow> \<not> list_ex isFormatMismatch ms"
  by (auto simp: hasInvalidJsxExtension_def isFormatMismatch_message split: option.splits if_splits)

lemma lintExportedContent_no_mismatch:
  assumes "getCodeFormat content = Mixed \<or> getCodeFormat content = Unknown"
  shows "\<not> list_ex isFormatMismatch
           (emitted (lintExportedContent c exportsValue currentPath isImports isAfterNodeCondition
                       isGlob filePath content))"
  using assms by (auto simp: lintExportedContent_def isFormatMismatch_message split: option.splits)

lemma emitted_seq_Done:
  "emitted (seq (Done a) r) = (case r of Done b \<Rightarrow> a @ b | _ \<Rightarrow> [])"
  by (cases r) auto

text \<open>
  C3.  When the content that a check reads for a file classifies as \<open>mixed\<close> or
  \<open>unknown\<close>, the check reports neither \<open>FILE_INVALID_FORMAT\<close> nor
  \<open>FILE_INVALID_EXPLICIT_FORMAT\<close>: the check of \<open>main\<close>, the check of a \<open>bin\<close> file,
  the check of a file reached from \<open>exports\<close> or \<open>imports\<close>, and the check of a file of a
  package without \<open>exports\<close>.
\<close>

theorem mixed_unknown_never_mismatch:
  assumes "getCodeFormat content = Mixed \<or> getCodeFormat content = Unknown"
  shows "(fst (core_readFile c (pathJoin (vfs c) (pkgDir c) main) (Some mainPkgPath)
                 [''.js'', ''/index.js'']) = Some content \<longrightarrow>
            \<not> list_ex isFormatMismatch (emitted (mainTask c main mainPkgPath))) \<and>
         (fst (core_readFile c (pathJoin (vfs c) (pkgDir c) binValue) (Some binPath)
                 [''.js'', ''/index.js'']) = Some content \<longrightarrow>
            \<not> list_ex isFormatMismatch (emitted (binTask c binValue binPath))) \<and>
         (fst (core_readFile c filePath (Some currentPath) []) = Some content \<longrightarrow>
            \<not> list_ex isFormatMismatch
                (emitted (lintExportedFile c exportsValue currentPath isImports
                            isAfterNodeCondition isGlob filePath))) \<and>
         (fst (core_readFile c filePath (Some []) []) = Some content \<longrightarrow>
            \<not> list_ex isFormatMismatch (emitted (lintGlobbedFile c filePath)))"
proof (intro conjI impI)
  assume r: "fst (core_readFile c (pathJoin (vfs c) (pkgDir c) main) (Some mainPkgPath)
                    [''.js'', ''/index.js'']) = Some content"
  then obtain ms where rd: "core_readFile c (pathJoin (vfs c) (pkgDir c) main) (Some mainPkgPath)
                    [''.js'', ''/index.js''] = (Some content, ms)"
    by (cases "core_readFile c (pathJoin (vfs c) (pkgDir c) main) (Some mainPkgPath)
                    [''.js'', ''/index.js'']") auto
  note ms = core_readFile_no_mismatch' [OF rd]
  obtain b ms' where jsx: "hasInvalidJsxExtension c main mainPkgPath None = (b, ms')"
    by (cases "hasInvalidJsxExtension c main mainPkgPath None") auto
  note ms' = hasInvalidJsxExtension_no_mismatch [OF jsx]
  from assms rd jsx ms ms' show "\<not> list_ex isFormatMismatch (emitted (mainTask c main mainPkgPath))"
    by (cases b) (auto simp: mainTask_def isFormatMismatch_message split: option.splits)
next
  assume r: "fst (core_readFile c (pathJoin (vfs c) (pkgDir c) binValue) (Some binPath)
                    [''.js'', ''/index.js'']) = Some content"
  then obtain ms where rd: "core_readFile c (pathJoin (vfs c) (pkgDir c) binValue) (Some binPath)
                    [''.js'', ''/index.js''] = (Some content, ms)"
    by (cases "core_readFile c (pathJoin (vfs c) (pkgDir c) binValue) (Some binPath)
                    [''.js'', ''/index.js'']") auto
  note ms = core_readFile_no_mismatch' [OF rd]
  from assms rd ms show "\<not> list_ex isFormatMismatch (emitted (binTask c binValue binPath))"
    by (auto simp: binTask_def isFormatMismatch_message split: option.splits)
next
  assume r: "fst (core_readFile c filePath (Some currentPath) []) = Some content"
  then obtain ms where rd: "core_readFile c filePath (Some currentPath) [] = (Some content, ms)"
    by (cases "core_readFile c filePath (Some currentPath) []") auto
  note ms = core_readFile_no_mismatch' [OF rd]
  obtain b ms' where jsx: "hasInvalidJsxExtension c filePath currentPath
             (if isGlob then Some (''./'' @ pathRelative (vfs c) (pkgDir c) filePath) else None) = (b, ms')"
    by (cases "hasInvalidJsxExtension c filePath currentPath
             (if isGlob then Some (''./'' @ pathRelative (vfs c) (pkgDir c) filePath) else None)") auto
  note ms' = hasInvalidJsxExtension_no_mismatch [OF jsx]
  note body = lintExportedContent_no_mismatch [OF assms, of c exportsValue currentPath isImports
      isAfterNodeCondition isGlob filePath]
  from rd jsx ms ms' body
  show "\<not> list_ex isFormatMismatch
          (emitted (lintExportedFile c exportsValue currentPath isImports
                      isAfterNodeCondition isGlob filePath))"
    by (cases b)
       (auto simp: lintExportedFile_def emitted_seq_Done split: outcome.splits)
next
  assume r: "fst (core_readFile c filePath (Some []) []) = Some content"
  then obtain ms where rd: "core_readFile c filePath (Some []) [] = (Some content, ms)"
    by (cases "core_readFile c filePath (Some []) []") auto
  note ms = core_readFile_no_mismatch' [OF rd]
  obtain b ms' where jsx: "hasInvalidJsxExtension c filePath [''name'']
             (Some (''/'' @ pathRelative (vfs c) (pkgDir c) filePath)) = (b, ms')"
    by (cases "hasInvalidJsxExtension c filePath [''name'']
             (Some (''/'' @ pathRelative (vfs c) (pkgDir c) filePath))") auto
  note ms' = hasInvalidJsxExtension_no_mismatch [OF jsx]
  from assms rd jsx ms ms'
  show "\<not> list_ex isFormatMismatch (emitted (lintGlobbedFile c filePath))"
    by (cases b) (auto simp: lintGlobbedFile_def isFormatMismatch_message split: option.splits)
qed

text \<open>
  In the CommonJS package \<open>index.js\<close> is mixed and \<open>cli.js\<close> unknown, and no check
  reports a mismatch for them; \<open>esm.js\<close> as \<open>main\<close> is reported.
\<close>

theorem mixed_unknown_never_mismatch_witness:
  "getCodeFormat ''module.exports = 1; export default 1'' = Mixed \<and>
   getCodeFormat ''#!/usr/bin/env node'' = Unknown \<and>
   mainTask fx_plain_ctx ''./index.js'' [''main''] = Done [] \<and>
   \<not> list_ex isFormatMismatch (emitted (mainTask fx_plain_ctx ''./index.js'' [''main''])) \<and>
   \<not> list_ex isFormatMismatch (emitted (binTask fx_plain_ctx ''./cli.js'' [''bin''])) \<and>
   \<not> list_ex isFormatMismatch
       (emitted (lintExportedFile fx_plain_ctx ''./index.js'' [''exports''] False False False ''/p/index.js'')) \<and>
   \<not> list_ex isFormatMismatch (emitted (lintGlobbedFile fx_plain_ctx ''/p/index.js'')) \<and>
   list_ex isFormatMismatch (emitted (mainTask fx_plain_ctx ''./esm.js'' [''main'']))"
proof -
  have mixed: "getCodeFormat ''module.exports = 1; export default 1'' = Mixed" by code_simp
  have unknown: "getCodeFormat ''#!/usr/bin/env node'' = Unknown" by code_simp
  have r1: "fst (core_readFile fx_plain_ctx (pathJoin (vfs fx_plain_ctx) (pkgDir fx_plain_ctx) ''./index.js'')
                   (Some [''main'']) [''.js'', ''/index.js'']) =
            Some ''module.exports = 1; export default 1''" by code_simp
  have r2: "fst (core_readFile fx_plain_ctx (pathJoin (vfs fx_plain_ctx) (pkgDir fx_plain_ctx) ''./cli.js'')
                   (Some [''bin'']) [''.js'', ''/index.js'']) =
            Some ''#!/usr/bin/env node''" by code_simp
  have r3: "fst (core_readFile fx_plain_ctx ''/p/index.js'' (Some [''exports'']) []) =
            Some ''module.exports = 1; export default 1''" by code_simp
  have r4: "fst (core_readFile fx_plain_ctx ''/p/index.js'' (Some []) []) =
            Some ''module.exports = 1; export default 1''" by code_simp
  have main_done: "mainTask fx_plain_ctx ''./index.js'' [''main''] = Done []" by code_simp
  have esm: "list_ex isFormatMismatch (emitted (mainTask fx_plain_ctx ''./esm.js'' [''main'']))"
    by code_simp
  note t1 = mixed_unknown_never_mismatch
    [of "''module.exports = 1; export default 1''" fx_plain_ctx "''./index.js''" "[''main'']"
        "''./cli.js''" "[''bin'']" "''/p/index.js''" "[''exports'']" "''./index.js''" False False False]
  note t2 = mixed_unknown_never_mismatch
    [of "''#!/usr/bin/env node''" fx_plain_ctx "''./index.js''" "[''main'']"
        "''./cli.js''" "[''bin'']" "''/p/index.js''" "[''exports'']" "''./index.js''" False False False]
  from mixed unknown r1 r2 r3 r4 main_done esm t1 t2 show ?thesis by presburger
qed

subsection \<open>The task for a string\<close>

text \<open>
  C10.  In \<open>imports\<close> a string that does not start with a dot is skipped: the crawl
  starts its task, the task returns at once, and nothing is reported for it, whatever the
  file system holds.
\<close>

theorem imports_external_value_skipped:
  assumes "\<not> startsWith exportsValue ''.''"
  shows "crawlExportsOrImports (JStr exportsValue) currentPath True isAfterNodeCondition =
           Done [Task exportsValue currentPath True isAfterNodeCondition] \<and>
         leafTask n c exportsValue currentPath True isAfterNodeCondition = Done [] \<and>
         runCrawl n c (JStr exportsValue) currentPath True = Done []"
  using assms by (simp add: leafTask_def runCrawl_def)

text \<open>
  \<open>lodash\<close> below \<open>imports\<close> gives nothing; the same string below \<open>exports\<close> is
  reported as an invalid value and a missing file.
\<close>

theorem imports_external_value_skipped_witness:
  "leafTask 5 fx_imports_ctx ''lodash'' [''imports'', ''#lodash''] True False = Done [] \<and>
   runCrawl 5 fx_imports_ctx (JStr ''lodash'') [''imports'', ''#lodash''] True = Done [] \<and>
   leafTask 5 fx_imports_ctx ''lodash'' [''exports'', ''./lodash''] False False =
     Done [\<lparr>m_code = EXPORTS_VALUE_INVALID, m_args = [(''suggestValue'', AStr ''./lodash'')],
             m_path = [''exports'', ''./lodash''], m_type = Error\<rparr>,
           \<lparr>m_code = FILE_DOES_NOT_EXIST, m_args = [],
             m_path = [''exports'', ''./lodash''], m_type = Error\<rparr>]"
proof -
  have 1: "\<not> startsWith ''lodash'' ''.''" by code_simp
  have 2: "leafTask 5 fx_imports_ctx ''lodash'' [''exports'', ''./lodash''] False False =
     Done [\<lparr>m_code = EXPORTS_VALUE_INVALID, m_args = [(''suggestValue'', AStr ''./lodash'')],
             m_path = [''exports'', ''./lodash''], m_type = Error\<rparr>,
           \<lparr>m_code = FILE_DOES_NOT_EXIST, m_args = [],
             m_path = [''exports'', ''./lodash''], m_type = Error\<rparr>]" by code_simp
  from imports_external_value_skipped [OF 1, of "[''imports'', ''#lodash'']" False 5 fx_imports_ctx] 2
  show ?thesis by simp
qed

subsection \<open>Folder mappings\<close>








text \<open>
  Below a key that does not end in a slash the lookup finds the string itself, and below a
  condition named like a member that every string inherits it finds that member: a
  suggestion in both cases.
\<close>

lemma folder_value_below_plain_key:
  "leafTask 5 (fx_ctx fx_empty (JObj [(''exports'', JObj [(''./sub'', JStr ''./sub/'')])]))
     ''./sub/'' [''exports'', ''./sub''] False False =
     Done [\<lparr>m_code = EXPORTS_GLOB_NO_DEPRECATED_SUBPATH_MAPPING,
             m_args = [(''expectPath'', AStrs [''exports'', ''./sub'']),
                       (''expectValue'', AStr ''./sub/*'')],
             m_path = [''exports'', ''./sub''], m_type = Suggestion\<rparr>,
           \<lparr>m_code = EXPORTS_GLOB_NO_MATCHED_FILES, m_args = [],
             m_path = [''exports'', ''./sub''], m_type = Warning\<rparr>]"
  by code_simp

lemma folder_value_inherited_member:
  "leafTask 5
     (fx_ctx fx_empty
        (JObj [(''exports'', JObj [(''./sub/*'', JStr ''./x.js''),
                                   (''./sub/'', JObj [(''toString'', JStr ''./sub/'')])])]))
     ''./sub/'' [''exports'', ''./sub/'', ''toString''] False False =
     Done [\<lparr>m_code = EXPORTS_GLOB_NO_DEPRECATED_SUBPATH_MAPPING,
             m_args = [(''expectPath'', AStrs [''exports'', ''./sub/*'', ''toString'']),
                       (''expectValue'', AStr ''./sub/*'')],
             m_path = [''exports'', ''./sub/'', ''toString''], m_type = Suggestion\<rparr>,
           \<lparr>m_code = EXPORTS_GLOB_NO_MATCHED_FILES, m_args = [],
             m_path = [''exports'', ''./sub/'', ''toString''], m_type = Warning\<rparr>]"
  by code_simp

text \<open>
  Two cases the statement above leaves aside.  With a condition between the key and the
  string, and no key with a star, the lookup reads a property of \<open>undefined\<close> and the task
  throws.  With \<open>browser: null\<close> and a file to check, the operator \<open>in\<close> throws.
\<close>

lemma folder_value_below_condition:
  "leafTask 5
     (fx_ctx fx_empty (JObj [(''exports'', JObj [(''./sub/'', JObj [(''import'', JStr ''./sub/'')])])]))
     ''./sub/'' [''exports'', ''./sub/'', ''import''] False False = Thrown"
  by code_simp

lemma folder_value_browser_null:
  "leafTask 5 fx_sub_null_ctx ''./sub/'' [''exports'', ''./sub/''] False False = Thrown"
  by code_simp


subsection \<open>Declaration files\<close>

lemma isDualPublish_dualPublishing:
  "isDualPublish (resolveFrom root [''import''] env p) (resolveFrom root [''require''] env p) =
   dualPublishing root p env"
  by (simp add: isDualPublish_def dualPublishing_def split: option.splits)

lemma takeWhile_last_index:
  "k \<in> set p \<Longrightarrow>
   (length (takeWhile (\<lambda>x. x \<noteq> k) p) = length p - 1) = (last p = k \<and> k \<notin> set (butlast p))"
proof (induction p rule: rev_induct)
  case Nil
  then show ?case by simp
next
  case (snoc x xs)
  show ?case
  proof (cases "k \<in> set xs")
    case True
    then have "length (takeWhile (\<lambda>x. x \<noteq> k) xs) < length xs"
      by (induction xs) auto
    with True show ?thesis by (simp add: takeWhile_append1 takeWhile_append)
  next
    case False
    with snoc.prems have "x = k" by simp
    with False show ?thesis by (simp add: takeWhile_append)
  qed
qed

lemma expectPathFor_insertionPath: "expectPathFor p format = insertionPath p format"
proof (cases "format \<in> set p")
  case True
  then show ?thesis by (simp add: expectPathFor_def insertionPath_def)
next
  case nf: False
  show ?thesis
  proof (cases "''types'' \<in> set p")
    case False
    then have "last p \<noteq> ''types'' \<or> p = []" by (metis last_in_set)
    with False nf show ?thesis
      by (cases p) (auto simp: expectPathFor_def insertionPath_def indexOf_def)
  next
    case True
    then have ne: "p \<noteq> []" by auto
    have idx: "indexOf p ''types'' = int (length (takeWhile (\<lambda>x. x \<noteq> ''types'') p))"
      using True by (simp add: indexOf_def)
    have eq: "(indexOf p ''types'' = int (length p) - 1) =
              (last p = ''types'' \<and> ''types'' \<notin> set (butlast p))"
      using takeWhile_last_index [OF True] ne idx
      by (cases p) auto
    show ?thesis
    proof (cases "last p = ''types'' \<and> ''types'' \<notin> set (butlast p)")
      case c: True
      with eq idx have n: "nat (indexOf p ''types'') = length p - 1" by simp
      have "take (length p - 1) p = butlast p" by (simp add: butlast_conv_take)
      moreover have "drop (length p - 1) p = [''types'']"
        using ne c by (metis append_butlast_last_id append_eq_conv_conj length_butlast)
      ultimately show ?thesis
        using nf c eq n ne by (simp add: expectPathFor_def insertionPath_def)
    next
      case False
      with nf eq show ?thesis by (auto simp: expectPathFor_def insertionPath_def)
    qed
  qed
qed

lemma map_option_unwrap: "map_option (case_option d (\<lambda>f. f)) (map_option Some x) = x"
  by (cases x) simp_all

lemma dtsExpectFormat_expectedDtsFormat:
  assumes "format = ''import'' \<or> format = ''require''"
  shows "dtsExpectFormat c format (dualPublishing root p env)
           (resolveFrom root [''import''] env p) (resolveFrom root [''require''] env p) =
         expectedDtsFormat c root p env format"
  using assms
  by (auto simp: dtsExpectFormat_def siblingFormat_def expectedDtsFormat_def
             dualPublishing_def map_option_unwrap
           split: option.splits)

lemma getDtsCodeFormatExtension_cases:
  "getDtsCodeFormatExtension e = (if e = ESM then ''.mts'' else if e = CJS then ''.cts'' else ''.ts'')"
  by (cases e) (simp_all add: getDtsCodeFormatExtension_def)

lemma seq_Done_Nil [simp]: "seq (Done []) r = r"
  by (cases r) simp_all

lemma filter_seen:
  "filter (\<lambda>y. fst y \<noteq> k) (filter (\<lambda>e. fst e \<notin> set seen) xs) =
   filter (\<lambda>e. fst e \<notin> set (k # seen)) xs"
  by (induction xs) auto

lemma declarationCheck_entry:
  "declarationCheck c root p tfp (key, env, format, t) =
     (if \<not> isPathExist (vfs c) (pathJoin (vfs c) (pkgDir c) (r_value t)) then Done []
      else if isDtsFile (r_value t)
      then (case getDtsFilePathFormat (parseJSON c) (vfs c)
                   (pathJoin (vfs c) (pkgDir c) (r_value t)) of
              None \<Rightarrow> Pending
            | Some actual \<Rightarrow>
                (case expectedDtsFormat c root p env format of
                   None \<Rightarrow> Pending
                 | Some expected \<Rightarrow>
                     Done (if actual \<noteq> expected
                           then [\<lparr>m_code = EXPORTS_TYPES_INVALID_FORMAT,
                                  m_args = [(''condition'', AStr format),
                                            (''actualFormat'', AFormat actual),
                                            (''expectFormat'', AFormat expected),
                                            (''actualExtension'',
                                             AStr (getExtName (vfs c) (r_value t))),
                                            (''expectExtension'',
                                             AStr (if expected = ESM then ''.mts''
                                                   else if expected = CJS then ''.cts'' else ''.ts'')),
                                            (''expectPath'',
                                             AStrs (insertionPath (r_path t) format))],
                                  m_path = r_path t, m_type = Warning\<rparr>]
                           else [])))
      else checkAdjacentDts c tfp format t)"
  by (simp add: declarationCheck_def)

lemma checkTypesLoop_declarationChecks:
  assumes "list_all (\<lambda>pair. snd pair = ''import'' \<or> snd pair = ''require'') pairs"
  shows "checkTypesLoop c root p tfp pairs seen =
         foldr seq
           (map (declarationCheck c root p tfp)
              (firstOfKey (filter (\<lambda>e. fst e \<notin> set seen) (resolvedTypes root p pairs))))
           (Done [])"
  using assms
proof (induction pairs arbitrary: seen)
  case Nil
  then show ?case by (simp add: resolvedTypes_def)
next
  case (Cons pair rest)
  obtain env format where pair: "pair = (env, format)" by (cases pair)
  from Cons.prems pair have fmt: "format = ''import'' \<or> format = ''require''"
    and rest: "list_all (\<lambda>pair. snd pair = ''import'' \<or> snd pair = ''require'') rest"
    by simp_all
  note IH = Cons.IH [OF rest]
  show ?case
  proof (cases "resolveFrom root [''types'', format] env p")
    case None
    then show ?thesis using IH pair by (simp add: resolvedTypes_def)
  next
    case (Some t)
    let ?key = "join_dot (r_path t) @ (if dualPublishing root p env then format else [])"
    have rt: "resolvedTypes root p (pair # rest) = (?key, env, format, t) # resolvedTypes root p rest"
      using Some pair by (simp add: resolvedTypes_def)
    show ?thesis
    proof (cases "?key \<in> set seen")
      case True
      then show ?thesis
        using IH pair Some rt by (simp add: isDualPublish_dualPublishing)
    next
      case False
      have dts: "checkDtsFormat c format (dualPublishing root p env)
                   (resolveFrom root [''import''] env p) (resolveFrom root [''require''] env p) t =
                 (case getDtsFilePathFormat (parseJSON c) (vfs c)
                         (pathJoin (vfs c) (pkgDir c) (r_value t)) of
                    None \<Rightarrow> Pending
                  | Some actual \<Rightarrow>
                      (case expectedDtsFormat c root p env format of
                         None \<Rightarrow> Pending
                       | Some expected \<Rightarrow>
                           Done (if actual \<noteq> expected
                                 then [\<lparr>m_code = EXPORTS_TYPES_INVALID_FORMAT,
                                        m_args = [(''condition'', AStr format),
                                                  (''actualFormat'', AFormat actual),
                                                  (''expectFormat'', AFormat expected),
                                                  (''actualExtension'',
                                                   AStr (getExtName (vfs c) (r_value t))),
                                                  (''expectExtension'',
                                                   AStr (if expected = ESM then ''.mts''
                                                         else if expected = CJS then ''.cts'' else ''.ts'')),
                                                  (''expectPath'',
                                                   AStrs (insertionPath (r_path t) format))],
                                        m_path = r_path t, m_type = Warning\<rparr>]
                                 else [])))"
        by (simp add: checkDtsFormat_def dtsExpectFormat_expectedDtsFormat [OF fmt]
              typesInvalidFormat_def expectPathFor_insertionPath
              getDtsCodeFormatExtension_cases [symmetric]
            split: option.splits)
      have step: "firstOfKey (filter (\<lambda>e. fst e \<notin> set seen) (resolvedTypes root p (pair # rest))) =
                  (?key, env, format, t) #
                  firstOfKey (filter (\<lambda>e. fst e \<notin> set (?key # seen)) (resolvedTypes root p rest))"
      proof -
        have "filter (\<lambda>e. fst e \<notin> set seen) (resolvedTypes root p (pair # rest)) =
              (?key, env, format, t) # filter (\<lambda>e. fst e \<notin> set seen) (resolvedTypes root p rest)"
          using False rt by simp
        then show ?thesis
          by (simp only: firstOfKey.simps fst_conv filter_seen)
      qed
      have "checkTypesLoop c root p tfp (pair # rest) seen =
            foldr seq
              (map (declarationCheck c root p tfp)
                 ((?key, env, format, t) #
                  firstOfKey (filter (\<lambda>e. fst e \<notin> set (?key # seen)) (resolvedTypes root p rest))))
              (Done [])"
        using False pair Some
        by (simp add: isDualPublish_dualPublishing dts IH declarationCheck_entry)
      then show ?thesis by (simp only: step)
    qed
  qed
qed

lemma findTypesFilePath_truthy:
  "findTypesFilePath c k = Some t \<Longrightarrow> truthy (Some t)"
  by (auto simp: findTypesFilePath_def split: if_splits)

lemma envFormatPairs_product:
  "envFormatPairs =
     concat (map (\<lambda>env. map (\<lambda>format. (env, format)) [''import'', ''require''])
               [None, Some ''node'', Some ''browser'', Some ''worker''])"
  by (simp add: envFormatPairs_def)

text \<open>
  C9, as amended.  The check of the declaration files runs when a types file is found
  (\<open>types\<close>, \<open>typings\<close> or \<open>index.d.ts\<close>); else it reports nothing.  It goes through
  the environments none, \<open>node\<close>, \<open>browser\<close> and \<open>worker\<close>, and for each of them
  through \<open>import\<close> and \<open>require\<close>.  The declaration file that \<open>types\<close>, the format and
  the environment resolve to is checked the first time its key is met: its resolution path,
  followed by the format when the package is dual-publishing in the environment.  A file
  that does not exist is passed over.  For a \<open>.d.ts\<close>, \<open>.d.mts\<close> or \<open>.d.cts\<close> file,
  the expected format is that of the code file resolved for the same format and
  environment, when the package is not dual-publishing and that file exists, and the one
  the condition names otherwise; \<open>EXPORTS_TYPES_INVALID_FORMAT\<close> is reported exactly when
  the actual format differs, with the extension for the expected format and the path at
  which the condition is to be inserted.  The checks run one after the other.
\<close>

theorem types_invalid_format:
  "checkTypesExported c exportsRootKey =
     (case findTypesFilePath c exportsRootKey of
        None \<Rightarrow> Done []
      | Some typesFilePath \<Rightarrow>
          declarationChecks c (exportsRootValue c exportsRootKey) (exportsPathOf c exportsRootKey)
            typesFilePath
            (concat (map (\<lambda>env. map (\<lambda>format. (env, format)) [''import'', ''require''])
                       [None, Some ''node'', Some ''browser'', Some ''worker''])))"
proof -
  have pairs: "list_all (\<lambda>pair. snd pair = ''import'' \<or> snd pair = ''require'') envFormatPairs"
    by (simp add: envFormatPairs_def)
  note loop = checkTypesLoop_declarationChecks [OF pairs, where seen = "[]", simplified]
  show ?thesis
    unfolding envFormatPairs_product [symmetric]
    by (auto simp: checkTypesExported_def declarationChecks_def loop
        dest: findTypesFilePath_truthy split: option.splits)
qed

text \<open>
  \<open>a.d.mts\<close> beside the CommonJS file \<open>a.js\<close> under \<open>import\<close> is reported.
  \<open>b.d.cts\<close> beside \<open>b.cjs\<close> under \<open>require\<close> is reported for \<open>import\<close>, where
  no code file resolves and ESM is expected.  With \<open>b.mjs\<close> and \<open>b.cjs\<close> published
  side by side, \<open>b.d.mts\<close> is checked for both formats and reported for \<open>require\<close>.
\<close>

theorem types_invalid_format_witness:
  "checkTypesExported fx_types_ctx (Some ''.'') =
     Done [\<lparr>m_code = EXPORTS_TYPES_INVALID_FORMAT,
             m_args = [(''condition'', AStr ''import''), (''actualFormat'', AFormat ESM),
                       (''expectFormat'', AFormat CJS), (''actualExtension'', AStr ''.mts''),
                       (''expectExtension'', AStr ''.cts''),
                       (''expectPath'', AStrs [''exports'', ''.'', ''import'', ''types''])],
             m_path = [''exports'', ''.'', ''types''], m_type = Warning\<rparr>] \<and>
   checkTypesExported fx_types_cjs_ctx (Some ''.'') =
     Done [\<lparr>m_code = EXPORTS_TYPES_INVALID_FORMAT,
             m_args = [(''condition'', AStr ''import''), (''actualFormat'', AFormat CJS),
                       (''expectFormat'', AFormat ESM), (''actualExtension'', AStr ''.cts''),
                       (''expectExtension'', AStr ''.mts''),
                       (''expectPath'', AStrs [''exports'', ''.'', ''import'', ''types''])],
             m_path = [''exports'', ''.'', ''types''], m_type = Warning\<rparr>] \<and>
   checkTypesExported fx_types_dual_ctx (Some ''.'') =
     Done [\<lparr>m_code = EXPORTS_TYPES_INVALID_FORMAT,
             m_args = [(''condition'', AStr ''require''), (''actualFormat'', AFormat ESM),
                       (''expectFormat'', AFormat CJS), (''actualExtension'', AStr ''.mts''),
                       (''expectExtension'', AStr ''.cts''),
                       (''expectPath'', AStrs [''exports'', ''.'', ''require'', ''types''])],
             m_path = [''exports'', ''.'', ''types''], m_type = Warning\<rparr>]"
proof -
  have r1: "(case findTypesFilePath fx_types_ctx (Some ''.'') of
               None \<Rightarrow> Done []
             | Some typesFilePath \<Rightarrow>
                 declarationChecks fx_types_ctx (exportsRootValue fx_types_ctx (Some ''.''))
                   (exportsPathOf fx_types_ctx (Some ''.'')) typesFilePath
                   (concat (map (\<lambda>env. map (\<lambda>format. (env, format)) [''import'', ''require''])
                              [None, Some ''node'', Some ''browser'', Some ''worker'']))) =
     Done [\<lparr>m_code = EXPORTS_TYPES_INVALID_FORMAT,
             m_args = [(''condition'', AStr ''import''), (''actualFormat'', AFormat ESM),
                       (''expectFormat'', AFormat CJS), (''actualExtension'', AStr ''.mts''),
                       (''expectExtension'', AStr ''.cts''),
                       (''expectPath'', AStrs [''exports'', ''.'', ''import'', ''types''])],
             m_path = [''exports'', ''.'', ''types''], m_type = Warning\<rparr>]"
    by code_simp
  have r2: "(case findTypesFilePath fx_types_cjs_ctx (Some ''.'') of
               None \<Rightarrow> Done []
             | Some typesFilePath \<Rightarrow>
                 declarationChecks fx_types_cjs_ctx (exportsRootValue fx_types_cjs_ctx (Some ''.''))
                   (exportsPathOf fx_types_cjs_ctx (Some ''.'')) typesFilePath
                   (concat (map (\<lambda>env. map (\<lambda>format. (env, format)) [''import'', ''require''])
                              [None, Some ''node'', Some ''browser'', Some ''worker'']))) =
     Done [\<lparr>m_code = EXPORTS_TYPES_INVALID_FORMAT,
             m_args = [(''condition'', AStr ''import''), (''actualFormat'', AFormat CJS),
                       (''expectFormat'', AFormat ESM), (''actualExtension'', AStr ''.cts''),
                       (''expectExtension'', AStr ''.mts''),
                       (''expectPath'', AStrs [''exports'', ''.'', ''import'', ''types''])],
             m_path = [''exports'', ''.'', ''types''], m_type = Warning\<rparr>]"
    by code_simp
  have r3: "(case findTypesFilePath fx_types_dual_ctx (Some ''.'') of
               None \<Rightarrow> Done []
             | Some typesFilePath \<Rightarrow>
                 declarationChecks fx_types_dual_ctx (exportsRootValue fx_types_dual_ctx (Some ''.''))
                   (exportsPathOf fx_types_dual_ctx (Some ''.'')) typesFilePath
                   (concat (map (\<lambda>env. map (\<lambda>format. (env, format)) [''import'', ''require''])
                              [None, Some ''node'', Some ''browser'', Some ''worker'']))) =
     Done [\<lparr>m_code = EXPORTS_TYPES_INVALID_FORMAT,
             m_args = [(''condition'', AStr ''require''), (''actualFormat'', AFormat ESM),
                       (''expectFormat'', AFormat CJS), (''actualExtension'', AStr ''.mts''),
                       (''expectExtension'', AStr ''.cts''),
                       (''expectPath'', AStrs [''exports'', ''.'', ''require'', ''types''])],
             m_path = [''exports'', ''.'', ''types''], m_type = Warning\<rparr>]"
    by code_simp
  from trans [OF types_invalid_format [of fx_types_ctx "Some ''.''"] r1]
       trans [OF types_invalid_format [of fx_types_cjs_ctx "Some ''.''"] r2]
       trans [OF types_invalid_format [of fx_types_dual_ctx "Some ''.''"] r3]
  show ?thesis by (intro conjI)
qed

text \<open>
  C9 as stated fails: the manifest exports \<open>b.d.mts\<close> under \<open>types\<close> and \<open>b.cjs\<close>
  under \<open>require\<close>.  For \<open>types\<close> and \<open>require\<close> the declaration file \<open>b.d.mts\<close>
  resolves, the code file resolved for \<open>require\<close> is \<open>b.cjs\<close>, which exists and is
  CommonJS, the package is not dual-publishing, and the declaration file is ESM; and the
  check reports nothing.  The file was met under \<open>import\<close> first, where no code file
  resolves and ESM is expected, and is not checked again.
\<close>

theorem declaration_under_require_counterexample:
  "doCheckTypesExported fx_types_mts_ctx = Done [] \<and>
   checkTypesExported fx_types_mts_ctx (Some ''.'') = Done [] \<and>
   exportsField fx_types_mts_ctx =
     Some (JObj [(''.'', JObj [(''types'', JStr ''./b.d.mts''), (''require'', JStr ''./b.cjs'')])]) \<and>
   resolveFrom (Some (JObj [(''types'', JStr ''./b.d.mts''), (''require'', JStr ''./b.cjs'')]))
     [''types'', ''require''] None [''exports'', ''.''] =
     Some \<lparr>r_value = ''./b.d.mts'', r_path = [''exports'', ''.'', ''types'']\<rparr> \<and>
   resolveFrom (Some (JObj [(''types'', JStr ''./b.d.mts''), (''require'', JStr ''./b.cjs'')]))
     [''require''] None [''exports'', ''.''] =
     Some \<lparr>r_value = ''./b.cjs'', r_path = [''exports'', ''.'', ''require'']\<rparr> \<and>
   resolveFrom (Some (JObj [(''types'', JStr ''./b.d.mts''), (''require'', JStr ''./b.cjs'')]))
     [''import''] None [''exports'', ''.''] = None \<and>
   pathJoin (vfs fx_types_mts_ctx) (pkgDir fx_types_mts_ctx) ''./b.cjs'' = ''/p/b.cjs'' \<and>
   pathJoin (vfs fx_types_mts_ctx) (pkgDir fx_types_mts_ctx) ''./b.d.mts'' = ''/p/b.d.mts'' \<and>
   isPathExist (vfs fx_types_mts_ctx) ''/p/b.cjs'' \<and>
   isPathExist (vfs fx_types_mts_ctx) ''/p/b.d.mts'' \<and>
   getFilePathFormat (parseJSON fx_types_mts_ctx) (vfs fx_types_mts_ctx) ''/p/b.cjs'' = Some CJS \<and>
   getDtsFilePathFormat (parseJSON fx_types_mts_ctx) (vfs fx_types_mts_ctx) ''/p/b.d.mts'' = Some ESM"
  by code_simp

end
